theory Spec2Isabelle
  imports Main
begin

section \<open>Data store\<close>

text \<open>
  The relational tables the views of \<^verbatim>\<open>reviews/views.py\<close> read and write. A table is
  the list of its rows in storage order; a foreign key is the primary key of the row it
  points to. \<^verbatim>\<open>User\<close> is Django's \<^verbatim>\<open>django.contrib.auth.models.User\<close>, of which
  the columns the views touch are kept.
\<close>

record User =
  user_pk :: int
  username :: string
  email :: string
  password :: string
  first_name :: string
  last_name :: string
  is_staff :: bool

text \<open>
  Modelled from the spec: \<^verbatim>\<open>reviews/models.py\<close> is absent. Section 3 gives a Movie a
  title and a genre, and a Review one movie, one user, an integer rating and a free-text
  body. The creation timestamp of a Review is left out: no view modelled here reads it
  (\<^verbatim>\<open>ReviewViewSet.list\<close> never calls \<^verbatim>\<open>filter_queryset\<close>, so its ordering
  backend does not run).
\<close>

record Movie =
  movie_pk :: int
  title :: string
  genre :: string

record Review =
  review_pk :: int
  review_movie :: int
  review_user :: int
  rating :: int
  body :: string

record Store =
  users :: "User list"
  movies :: "Movie list"
  reviews :: "Review list"

section \<open>Requests, responses and exceptions\<close>

text \<open>
  A value of a parsed JSON request body, as far as the views look at it: null, a boolean,
  an integer or a string.
\<close>

datatype jvalue = JNull | JBool bool | JInt int | JStr string

text \<open>
  \<^verbatim>\<open>request.user\<close> is \<open>None\<close> for Django's anonymous user;
  \<^verbatim>\<open>request.query_params\<close> and \<^verbatim>\<open>request.data\<close> are dictionaries. The type
  parameter is the type of the values of the request body.
\<close>

record 'v Request =
  user :: "User option"
  query_params :: "string \<rightharpoonup> string"
  data :: "string \<rightharpoonup> 'v"

text \<open>
  The page of a paginated response, \<^verbatim>\<open>{count, next, previous, results}\<close>. The links
  \<^verbatim>\<open>next\<close> and \<^verbatim>\<open>previous\<close> are kept as the number of the page they point to.
\<close>

record Envelope =
  count :: nat
  next_page :: "nat option"
  previous_page :: "nat option"
  results :: "Review list"

text \<open>The bodies the views put into a \<^verbatim>\<open>Response\<close>.\<close>

datatype content =
    Error string
  | Message string
  | Detail string
  | Tokens string string
  | FieldErrors "string list"
  | MovieData Movie
  | MovieList "Movie list"
  | ReviewData Review
  | Page Envelope
  | NoContent

record Response =
  resp_data :: content
  status_code :: nat

text \<open>
  What a view can raise. \<open>NotFound\<close>, \<open>PermissionDenied\<close> and \<open>NotAuthenticated\<close>
  are subclasses of the framework's \<^verbatim>\<open>APIException\<close>, \<open>Http404\<close> is Django's,
  \<open>PageNotAnInteger\<close> and \<open>EmptyPage\<close> are the two \<^verbatim>\<open>InvalidPage\<close> exceptions of
  Django's paginator; the others are plain Python and ORM exceptions.
\<close>

datatype exn =
    Movie_DoesNotExist
  | Review_DoesNotExist
  | TypeError
  | ValueError
  | AttributeError
  | IntegrityError
  | NotImplementedError
  | PageNotAnInteger
  | EmptyPage
  | Http404
  | NotFound string
  | PermissionDenied
  | NotAuthenticated

section \<open>Permissions and dispatch\<close>

datatype permission = AllowAny | IsAuthenticated | IsAdminUser

text \<open>
  The three permission classes of \<^verbatim>\<open>rest_framework.permissions\<close> the views name:
  \<^verbatim>\<open>IsAuthenticated\<close> is \<^verbatim>\<open>bool(request.user and request.user.is_authenticated)\<close>,
  \<^verbatim>\<open>IsAdminUser\<close> is \<^verbatim>\<open>bool(request.user and request.user.is_staff)\<close>.
\<close>

fun has_permission :: "permission \<Rightarrow> 'v Request \<Rightarrow> bool" where
  "has_permission AllowAny request = True"
| "has_permission IsAuthenticated request =
     (case user request of None \<Rightarrow> False | Some u \<Rightarrow> True)"
| "has_permission IsAdminUser request =
     (case user request of None \<Rightarrow> False | Some u \<Rightarrow> is_staff u)"

text \<open>
  \<^verbatim>\<open>APIView.handle_exception\<close>: an \<^verbatim>\<open>APIException\<close> becomes the response of its
  status code, \<^verbatim>\<open>Http404\<close> becomes a 404; every other exception is raised again and
  leaves the view unhandled (\<open>Inl\<close>), which the server answers as an internal error.
\<close>

fun handle_exception :: "exn \<Rightarrow> exn + Response" where
  "handle_exception (NotFound msg) = Inr \<lparr>resp_data = Detail msg, status_code = 404\<rparr>"
| "handle_exception Http404 = Inr \<lparr>resp_data = Detail ''Not found.'', status_code = 404\<rparr>"
| "handle_exception PermissionDenied =
     Inr \<lparr>resp_data = Detail ''You do not have permission to perform this action.'',
          status_code = 403\<rparr>"
| "handle_exception NotAuthenticated =
     Inr \<lparr>resp_data = Detail ''Authentication credentials were not provided.'',
          status_code = 401\<rparr>"
| "handle_exception e = Inl e"

text \<open>
  \<^verbatim>\<open>APIView.dispatch\<close>: the permission classes of the view are checked before its
  handler runs. A request that fails one is denied with \<^verbatim>\<open>NotAuthenticated\<close> when it
  carries no authenticated user and with \<^verbatim>\<open>PermissionDenied\<close> otherwise, and the
  handler does not run. An exception of the handler goes through
  \<open>handle_exception\<close>.
\<close>

definition dispatch ::
  "permission list \<Rightarrow> ('v Request \<Rightarrow> Store \<Rightarrow> (exn + Response) \<times> Store)
     \<Rightarrow> 'v Request \<Rightarrow> Store \<Rightarrow> (exn + Response) \<times> Store" where
  "dispatch permission_classes handler request db =
     (if list_all (\<lambda>p. has_permission p request) permission_classes then
        (case handler request db of
           (Inl e, db') \<Rightarrow> (handle_exception e, db')
         | (Inr response, db') \<Rightarrow> (Inr response, db'))
      else
        (handle_exception
           (case user request of None \<Rightarrow> NotAuthenticated | Some u \<Rightarrow> PermissionDenied),
         db))"

section \<open>User profile update\<close>









section \<open>Query parameters: integers and substrings\<close>

text \<open>
  Python's \<^verbatim>\<open>int(s)\<close> on a string, in base 10: white space around the number is
  dropped, one sign may lead, and single underscores may stand between digits. \<open>None\<close>
  is the \<^verbatim>\<open>ValueError\<close>, which a number of more than 4300 digits raises too (the
  default limit of the interpreter on the conversion). Characters are code points below
  256, where the decimal digits are \<^verbatim>\<open>0\<close> to \<^verbatim>\<open>9\<close>.
\<close>

definition py_isspace :: "char \<Rightarrow> bool" where
  "py_isspace c = (of_char c \<in> {9, 10, 11, 12, 13, 28, 29, 30, 31, 32, 133, 160 :: nat})"

definition is_digit :: "char \<Rightarrow> bool" where
  "is_digit c = (48 \<le> (of_char c :: nat) \<and> (of_char c :: nat) \<le> 57)"

definition digit_value :: "char \<Rightarrow> int" where
  "digit_value c = int (of_char c) - 48"

definition strip :: "string \<Rightarrow> string" where
  "strip s = rev (dropWhile py_isspace (rev (dropWhile py_isspace s)))"

fun int_digits :: "string \<Rightarrow> bool \<Rightarrow> int \<Rightarrow> int option" where
  "int_digits [] prev_digit acc = (if prev_digit then Some acc else None)"
| "int_digits (c # cs) prev_digit acc =
     (if is_digit c then int_digits cs True (10 * acc + digit_value c)
      else if c = CHR ''_'' \<and> prev_digit then int_digits cs False acc
      else None)"

definition py_int :: "string \<Rightarrow> int option" where
  "py_int s =
     (if 4300 < length (filter is_digit s) then None
      else
        (case strip s of
           [] \<Rightarrow> None
         | c # cs \<Rightarrow>
             if c = CHR ''-'' then map_option uminus (int_digits cs False 0)
             else if c = CHR ''+'' then int_digits cs False 0
             else int_digits (c # cs) False 0))"

text \<open>
  The lookup \<^verbatim>\<open>icontains\<close>: the second string occurs in the first, letters compared
  without case. The comparison is the database's; here it folds the ASCII letters.
\<close>

definition lower :: "char \<Rightarrow> char" where
  "lower c =
     (if 65 \<le> (of_char c :: nat) \<and> (of_char c :: nat) \<le> 90
      then char_of (of_char c + 32 :: nat) else c)"

fun startswith :: "string \<Rightarrow> string \<Rightarrow> bool" where
  "startswith s [] = True"
| "startswith [] (p # ps) = False"
| "startswith (c # cs) (p # ps) = (c = p \<and> startswith cs ps)"

fun contains :: "string \<Rightarrow> string \<Rightarrow> bool" where
  "contains [] sub = (sub = [])"
| "contains (c # cs) sub = (startswith (c # cs) sub \<or> contains cs sub)"

definition icontains :: "string \<Rightarrow> string \<Rightarrow> bool" where
  "icontains s sub = contains (map lower s) (map lower sub)"

text \<open>
  The filter \<^verbatim>\<open>movie__title__icontains=movie_title\<close> on reviews: the join of a review
  with the row of its movie.
\<close>

definition movie__title__icontains :: "Store \<Rightarrow> string \<Rightarrow> Review \<Rightarrow> bool" where
  "movie__title__icontains db movie_title r =
     list_ex (\<lambda>m. movie_pk m = review_movie r \<and> icontains (title m) movie_title) (movies db)"

section \<open>Pagination\<close>

text \<open>
  \<^verbatim>\<open>ReviewPagination\<close> sets three attributes of the framework's
  \<^verbatim>\<open>PageNumberPagination\<close>; the functions below are that class and Django's
  \<^verbatim>\<open>Paginator\<close>, which it drives.
\<close>

definition ReviewPagination_page_size :: nat where
  "ReviewPagination_page_size = 10"

definition ReviewPagination_page_size_query_param :: string where
  "ReviewPagination_page_size_query_param = ''page_size''"

definition ReviewPagination_max_page_size :: nat where
  "ReviewPagination_max_page_size = 100"

text \<open>
  \<^verbatim>\<open>_positive_int(integer_string, strict, cutoff)\<close>: \<open>None\<close> is its
  \<^verbatim>\<open>ValueError\<close>; a cutoff of 0 is no cutoff.
\<close>

definition positive_int :: "string \<Rightarrow> bool \<Rightarrow> nat \<Rightarrow> nat option" where
  "positive_int integer_string strict cutoff =
     (case py_int integer_string of
        None \<Rightarrow> None
      | Some ret \<Rightarrow>
          if ret < 0 \<or> (ret = 0 \<and> strict) then None
          else if cutoff \<noteq> 0 then Some (min (nat ret) cutoff)
          else Some (nat ret))"

text \<open>
  \<^verbatim>\<open>get_page_size\<close>: the client's \<^verbatim>\<open>page_size\<close>, cut off at the maximum; the
  default when the parameter is missing or is not a positive integer.
\<close>

definition get_page_size :: "'v Request \<Rightarrow> nat" where
  "get_page_size request =
     (case query_params request ReviewPagination_page_size_query_param of
        None \<Rightarrow> ReviewPagination_page_size
      | Some s \<Rightarrow>
          (case positive_int s True ReviewPagination_max_page_size of
             None \<Rightarrow> ReviewPagination_page_size
           | Some n \<Rightarrow> n))"

text \<open>
  What \<^verbatim>\<open>get_queryset\<close> hands to the paginator: a queryset of reviews, or, as
  \<^verbatim>\<open>ReviewViewSet.get_queryset\<close> does on a bad rating, a \<^verbatim>\<open>Response\<close> object.
\<close>

datatype pyobj = QuerySet "Review list" | ResponseObj Response

text \<open>
  \<^verbatim>\<open>Paginator.count\<close> is \<^verbatim>\<open>len(object_list)\<close> (or its \<^verbatim>\<open>count()\<close>): a
  \<^verbatim>\<open>Response\<close> has neither, which is a \<^verbatim>\<open>TypeError\<close>.
\<close>

fun Paginator_count :: "pyobj \<Rightarrow> exn + nat" where
  "Paginator_count (QuerySet xs) = Inr (length xs)"
| "Paginator_count (ResponseObj r) = Inl TypeError"

text \<open>
  \<^verbatim>\<open>Paginator.num_pages\<close>, with no orphans and an empty first page allowed: the
  ceiling of \<^verbatim>\<open>max(1, count) / per_page\<close>.
\<close>

definition Paginator_num_pages :: "pyobj \<Rightarrow> nat \<Rightarrow> exn + nat" where
  "Paginator_num_pages object_list per_page =
     (case Paginator_count object_list of
        Inl e \<Rightarrow> Inl e
      | Inr c \<Rightarrow> Inr ((max 1 c + per_page - 1) div per_page))"

text \<open>
  \<^verbatim>\<open>get_page_number\<close>: \<^verbatim>\<open>request.query_params.get('page') or 1\<close>, and the number
  of pages for the string \<^verbatim>\<open>last\<close>.
\<close>

datatype page_number = PageInt int | PageStr string

definition get_page_number :: "'v Request \<Rightarrow> pyobj \<Rightarrow> nat \<Rightarrow> exn + page_number" where
  "get_page_number request object_list per_page =
     (case query_params request ''page'' of
        None \<Rightarrow> Inr (PageInt 1)
      | Some s \<Rightarrow>
          if s = [] then Inr (PageInt 1)
          else if s = ''last'' then
            (case Paginator_num_pages object_list per_page of
               Inl e \<Rightarrow> Inl e
             | Inr n \<Rightarrow> Inr (PageInt (int n)))
          else Inr (PageStr s))"

text \<open>
  \<^verbatim>\<open>Paginator.validate_number\<close>: the number must convert to an integer, be at least 1
  and at most the number of pages.
\<close>

definition validate_number :: "page_number \<Rightarrow> pyobj \<Rightarrow> nat \<Rightarrow> exn + nat" where
  "validate_number number object_list per_page =
     (case (case number of PageInt n \<Rightarrow> Some n | PageStr s \<Rightarrow> py_int s) of
        None \<Rightarrow> Inl PageNotAnInteger
      | Some n \<Rightarrow>
          if n < 1 then Inl EmptyPage
          else
            (case Paginator_num_pages object_list per_page of
               Inl e \<Rightarrow> Inl e
             | Inr np \<Rightarrow> if int np < n then Inl EmptyPage else Inr (nat n)))"

text \<open>The page the paginator keeps: its number, its items, and the paginator's totals.\<close>

record PageObj =
  number :: nat
  object_list :: "Review list"
  paginator_count :: nat
  paginator_num_pages :: nat

text \<open>
  \<^verbatim>\<open>Paginator.page\<close>: the slice \<^verbatim>\<open>object_list[bottom:top]\<close> of the validated page.
\<close>

definition Paginator_page :: "page_number \<Rightarrow> pyobj \<Rightarrow> nat \<Rightarrow> exn + PageObj" where
  "Paginator_page num objs per_page =
     (case validate_number num objs per_page of
        Inl e \<Rightarrow> Inl e
      | Inr n \<Rightarrow>
          (case objs of
             ResponseObj r \<Rightarrow> Inl TypeError
           | QuerySet xs \<Rightarrow>
               (let bottom = (n - 1) * per_page;
                    top = (if length xs \<le> bottom + per_page then length xs
                           else bottom + per_page)
                in Inr \<lparr>number = n,
                        object_list = take (top - bottom) (drop bottom xs),
                        paginator_count = length xs,
                        paginator_num_pages = (max 1 (length xs) + per_page - 1) div per_page\<rparr>)))"

text \<open>
  \<^verbatim>\<open>PageNumberPagination.paginate_queryset\<close>: \<open>None\<close> when the page size is 0, and
  \<^verbatim>\<open>NotFound\<close> for an invalid page. Any other exception passes through.
\<close>

definition paginate_queryset :: "pyobj \<Rightarrow> 'v Request \<Rightarrow> exn + PageObj option" where
  "paginate_queryset queryset request =
     (let page_size = get_page_size request in
      if page_size = 0 then Inr None
      else
        (case get_page_number request queryset page_size of
           Inl e \<Rightarrow> Inl e
         | Inr page_number \<Rightarrow>
             (case Paginator_page page_number queryset page_size of
                Inl PageNotAnInteger \<Rightarrow> Inl (NotFound ''Invalid page.'')
              | Inl EmptyPage \<Rightarrow> Inl (NotFound ''Invalid page.'')
              | Inl e \<Rightarrow> Inl e
              | Inr page \<Rightarrow> Inr (Some page))))"

text \<open>
  \<^verbatim>\<open>get_paginated_response\<close>: the envelope of the page, with status 200. The
  serializer of a stored review is taken as the review itself.
\<close>

definition get_paginated_response :: "PageObj \<Rightarrow> Response" where
  "get_paginated_response page =
     \<lparr>resp_data = Page
        \<lparr>count = paginator_count page,
         next_page = (if number page < paginator_num_pages page
                      then Some (number page + 1) else None),
         previous_page = (if 1 < number page then Some (number page - 1) else None),
         results = object_list page\<rparr>,
      status_code = 200\<rparr>"

section \<open>Review lists\<close>

definition ReviewViewSet_permission_classes :: "permission list" where
  "ReviewViewSet_permission_classes = [IsAuthenticated]"

text \<open>
  \<^verbatim>\<open>ReviewViewSet.get_queryset\<close>. On a rating that is not an integer from 1 to 5 the
  method returns a \<^verbatim>\<open>Response\<close> object where its caller expects a queryset.
\<close>

definition ReviewViewSet_get_queryset :: "'v Request \<Rightarrow> Store \<Rightarrow> pyobj" where
  "ReviewViewSet_get_queryset request db =
     (let queryset = reviews db;
          movie_title = query_params request ''movie_title'';
          rating_param = query_params request ''rating'';
          queryset =
            (case movie_title of
               None \<Rightarrow> queryset
             | Some t \<Rightarrow>
                 if t \<noteq> [] then filter (movie__title__icontains db t) queryset
                 else queryset)
      in case rating_param of
           None \<Rightarrow> QuerySet queryset
         | Some s \<Rightarrow>
             if s \<noteq> [] then
               (case py_int s of
                  Some r \<Rightarrow>
                    if 1 \<le> r \<and> r \<le> 5 then QuerySet (filter (\<lambda>x. rating x = r) queryset)
                    else ResponseObj
                      \<lparr>resp_data = Error ''Rating must be between 1 and 5.'',
                       status_code = 400\<rparr>
                | None \<Rightarrow> ResponseObj
                    \<lparr>resp_data = Error
                       ''Invalid rating value. Rating must be an integer between 1 and 5.'',
                     status_code = 400\<rparr>)
             else QuerySet queryset)"

text \<open>
  \<^verbatim>\<open>ReviewViewSet.list\<close>: whatever \<^verbatim>\<open>get_queryset\<close> returned goes to the paginator.
  The branch for no page serializes the whole queryset; iterating a \<^verbatim>\<open>Response\<close>
  there is an error of its own.
\<close>

definition ReviewViewSet_list :: "'v Request \<Rightarrow> Store \<Rightarrow> (exn + Response) \<times> Store" where
  "ReviewViewSet_list request db =
     (let queryset = ReviewViewSet_get_queryset request db in
      case paginate_queryset queryset request of
        Inl e \<Rightarrow> (Inl e, db)
      | Inr (Some page) \<Rightarrow> (Inr (get_paginated_response page), db)
      | Inr None \<Rightarrow>
          (case queryset of
             QuerySet xs \<Rightarrow>
               (Inr \<lparr>resp_data = Page \<lparr>count = length xs, next_page = None,
                                       previous_page = None, results = xs\<rparr>,
                     status_code = 200\<rparr>, db)
           | ResponseObj r \<Rightarrow> (Inl TypeError, db)))"

definition ReviewListCreateView_permission_classes :: "permission list" where
  "ReviewListCreateView_permission_classes = [IsAuthenticated]"

text \<open>
  \<^verbatim>\<open>ReviewListCreateView.get\<close>, its filtering stage (the lines before the paginator is
  built): the reviews of the movie of the path, narrowed by the two parameters, or the 400
  response the method returns at once.
\<close>

definition ReviewListCreateView_get_reviews ::
  "'v Request \<Rightarrow> int \<Rightarrow> Store \<Rightarrow> Response + Review list" where
  "ReviewListCreateView_get_reviews request movie_id db =
     (let revs = filter (\<lambda>x. review_movie x = movie_id) (reviews db);
          movie_title = query_params request ''movie_title'';
          rating_param = query_params request ''rating'';
          revs =
            (case movie_title of
               None \<Rightarrow> revs
             | Some t \<Rightarrow>
                 if t \<noteq> [] then filter (movie__title__icontains db t) revs
                 else revs)
      in case rating_param of
           None \<Rightarrow> Inr revs
         | Some s \<Rightarrow>
             if s \<noteq> [] then
               (case py_int s of
                  Some r \<Rightarrow>
                    if 1 \<le> r \<and> r \<le> 5 then Inr (filter (\<lambda>x. rating x = r) revs)
                    else Inl
                      \<lparr>resp_data = Error ''Rating must be between 1 and 5.'',
                       status_code = 400\<rparr>
                | None \<Rightarrow> Inl
                    \<lparr>resp_data = Error
                       ''Invalid rating value. Rating must be an integer between 1 and 5.'',
                     status_code = 400\<rparr>)
             else Inr revs)"

text \<open>
  \<^verbatim>\<open>ReviewListCreateView.get\<close>: the filtering stage, then the page. With no page the
  paginator has none to wrap, an \<^verbatim>\<open>AttributeError\<close>.
\<close>

definition ReviewListCreateView_get ::
  "int \<Rightarrow> 'v Request \<Rightarrow> Store \<Rightarrow> (exn + Response) \<times> Store" where
  "ReviewListCreateView_get movie_id request db =
     (case ReviewListCreateView_get_reviews request movie_id db of
        Inl response \<Rightarrow> (Inr response, db)
      | Inr revs \<Rightarrow>
          (case paginate_queryset (QuerySet revs) request of
             Inl e \<Rightarrow> (Inl e, db)
           | Inr (Some result_page) \<Rightarrow> (Inr (get_paginated_response result_page), db)
           | Inr None \<Rightarrow> (Inl AttributeError, db)))"

section \<open>Serializers\<close>

text \<open>
  Modelled from the spec: \<^verbatim>\<open>reviews/serializers.py\<close> is absent. Section 4.2 leaves
  field validation to a declarative schema with the types of section 3: a movie has a title
  and a genre, both strings. The result is the list of the fields in error or the validated
  pair.
\<close>

fun str_field :: "jvalue option \<Rightarrow> string option" where
  "str_field (Some (JStr s)) = Some s"
| "str_field v = None"

definition MovieSerializer_is_valid :: "(string \<rightharpoonup> jvalue) \<Rightarrow> string list + string \<times> string" where
  "MovieSerializer_is_valid d =
     (case (str_field (d ''title''), str_field (d ''genre'')) of
        (Some t, Some g) \<Rightarrow> Inr (t, g)
      | (t, g) \<Rightarrow>
          Inl ((if t = None then [''title''] else []) @ (if g = None then [''genre''] else [])))"

text \<open>
  The primary key a new row gets: one past the largest in the table. (A database sequence
  does not give the key of a deleted last row again; no statement below depends on the
  value of a key.)
\<close>

definition next_pk :: "int list \<Rightarrow> int" where
  "next_pk pks = fold max pks 0 + 1"

text \<open>
  Modelled from the spec: the validation of \<^verbatim>\<open>ReviewSerializer\<close>, absent with
  \<^verbatim>\<open>reviews/serializers.py\<close>. By section 3 the rating is an integer from 1 to 5 and any
  other value is a validation failure; the body is free text; a movie or a user, when the
  data names one, is the primary key of an existing row. The movie and the user may also
  come from the view (section 4.1: the system attaches them), so the data need not hold
  them.
\<close>

record ReviewFields =
  f_movie :: "int option"
  f_user :: "int option"
  f_rating :: int
  f_body :: string

definition rating_field :: "jvalue option \<Rightarrow> int option" where
  "rating_field v =
     (case v of Some (JInt r) \<Rightarrow> if 1 \<le> r \<and> r \<le> 5 then Some r else None | _ \<Rightarrow> None)"

definition body_field :: "jvalue option \<Rightarrow> string option" where
  "body_field v = (case v of None \<Rightarrow> Some [] | Some (JStr s) \<Rightarrow> Some s | _ \<Rightarrow> None)"

text \<open>
  A related field: absent (\<open>Inr None\<close>), the key of an existing row, or in error.
\<close>

definition pk_field :: "int list \<Rightarrow> jvalue option \<Rightarrow> unit + int option" where
  "pk_field pks v =
     (case v of
        None \<Rightarrow> Inr None
      | Some (JInt k) \<Rightarrow> if k \<in> set pks then Inr (Some k) else Inl ()
      | _ \<Rightarrow> Inl ())"

definition ReviewSerializer_is_valid ::
  "(string \<rightharpoonup> jvalue) \<Rightarrow> Store \<Rightarrow> string list + ReviewFields" where
  "ReviewSerializer_is_valid d db =
     (case (pk_field (map movie_pk (movies db)) (d ''movie''),
            pk_field (map user_pk (users db)) (d ''user''),
            rating_field (d ''rating''),
            body_field (d ''body'')) of
        (Inr m, Inr u, Some r, Some b) \<Rightarrow>
          Inr \<lparr>f_movie = m, f_user = u, f_rating = r, f_body = b\<rparr>
      | (m, u, r, b) \<Rightarrow>
          Inl ((if isl m then [''movie''] else []) @ (if isl u then [''user''] else [])
               @ (if r = None then [''rating''] else []) @ (if b = None then [''body''] else [])))"

text \<open>
  \<^verbatim>\<open>serializer.save(**kwargs)\<close> with no instance, which is the framework's: the keyword
  arguments override the validated fields of the same name, and the row is created. A review
  with no movie or no user violates the table's constraints. The result is the new review
  and the new store.
\<close>

definition ReviewSerializer_create ::
  "ReviewFields \<Rightarrow> int option \<Rightarrow> int option \<Rightarrow> Store \<Rightarrow> exn + Review \<times> Store" where
  "ReviewSerializer_create validated_data movie_kw user_kw db =
     (let m = (case movie_kw of Some k \<Rightarrow> Some k | None \<Rightarrow> f_movie validated_data);
          u = (case user_kw of Some k \<Rightarrow> Some k | None \<Rightarrow> f_user validated_data)
      in case (m, u) of
           (Some mk, Some uk) \<Rightarrow>
             (let r = \<lparr>review_pk = next_pk (map review_pk (reviews db)),
                       review_movie = mk, review_user = uk,
                       rating = f_rating validated_data, body = f_body validated_data\<rparr>
              in Inr (r, db\<lparr>reviews := reviews db @ [r]\<rparr>))
         | _ \<Rightarrow> Inl IntegrityError)"

text \<open>
  \<^verbatim>\<open>serializer.save()\<close> on an existing review: the validated fields are written to the
  row of the instance.
\<close>

definition ReviewSerializer_update :: "Review \<Rightarrow> ReviewFields \<Rightarrow> Store \<Rightarrow> Review \<times> Store" where
  "ReviewSerializer_update instance validated_data db =
     (let r = instance
            \<lparr>review_movie := (case f_movie validated_data of
                                Some k \<Rightarrow> k | None \<Rightarrow> review_movie instance),
             review_user := (case f_user validated_data of
                               Some k \<Rightarrow> k | None \<Rightarrow> review_user instance),
             rating := f_rating validated_data,
             body := f_body validated_data\<rparr>
      in (r, db\<lparr>reviews :=
                  map (\<lambda>x. if review_pk x = review_pk instance then r else x) (reviews db)\<rparr>))"

section \<open>Movies\<close>

text \<open>
  \<^verbatim>\<open>Movie.objects.get(id=movie_id)\<close>: the row, or \<^verbatim>\<open>Movie.DoesNotExist\<close>.
\<close>

definition Movie_objects_get :: "int \<Rightarrow> Store \<Rightarrow> exn + Movie" where
  "Movie_objects_get movie_id db =
     (case find (\<lambda>m. movie_pk m = movie_id) (movies db) of
        None \<Rightarrow> Inl Movie_DoesNotExist
      | Some m \<Rightarrow> Inr m)"

text \<open>
  Modelled from the spec: \<^verbatim>\<open>movie.delete()\<close> with the absent \<^verbatim>\<open>reviews/models.py\<close>.
  A review belongs to exactly one movie (section 3), so the reviews of a deleted movie go
  with it.
\<close>

definition Movie_delete :: "Movie \<Rightarrow> Store \<Rightarrow> Store" where
  "Movie_delete m db =
     db\<lparr>movies := filter (\<lambda>x. movie_pk x \<noteq> movie_pk m) (movies db),
        reviews := filter (\<lambda>x. review_movie x \<noteq> movie_pk m) (reviews db)\<rparr>"

definition MovieViewSet_permission_classes :: "permission list" where
  "MovieViewSet_permission_classes = [IsAuthenticated]"

text \<open>
  \<^verbatim>\<open>MovieViewSet\<close> is a \<^verbatim>\<open>ModelViewSet\<close>; its \<^verbatim>\<open>destroy\<close> action is the
  framework's: \<^verbatim>\<open>get_object\<close> (a missing row is \<^verbatim>\<open>Http404\<close>), the delete, and an
  empty 204.
\<close>

definition MovieViewSet_destroy :: "int \<Rightarrow> 'v Request \<Rightarrow> Store \<Rightarrow> (exn + Response) \<times> Store" where
  "MovieViewSet_destroy pk request db =
     (case find (\<lambda>m. movie_pk m = pk) (movies db) of
        None \<Rightarrow> (Inl Http404, db)
      | Some instance \<Rightarrow>
          (Inr \<lparr>resp_data = NoContent, status_code = 204\<rparr>, Movie_delete instance db))"

definition MovieListCreateView_permission_classes :: "permission list" where
  "MovieListCreateView_permission_classes = [IsAdminUser]"

definition MovieListCreateView_get :: "'v Request \<Rightarrow> Store \<Rightarrow> (exn + Response) \<times> Store" where
  "MovieListCreateView_get request db =
     (Inr \<lparr>resp_data = MovieList (movies db), status_code = 200\<rparr>, db)"

definition MovieListCreateView_post ::
  "jvalue Request \<Rightarrow> Store \<Rightarrow> (exn + Response) \<times> Store" where
  "MovieListCreateView_post request db =
     (case MovieSerializer_is_valid (data request) of
        Inr (t, g) \<Rightarrow>
          (let m = \<lparr>movie_pk = next_pk (map movie_pk (movies db)), title = t, genre = g\<rparr>
           in (Inr \<lparr>resp_data = MovieData m, status_code = 201\<rparr>,
               db\<lparr>movies := movies db @ [m]\<rparr>))
      | Inl errors \<Rightarrow> (Inr \<lparr>resp_data = FieldErrors errors, status_code = 400\<rparr>, db))"

definition MovieDetailView_permission_classes :: "permission list" where
  "MovieDetailView_permission_classes = [IsAdminUser]"

text \<open>
  \<^verbatim>\<open>MovieDetailView\<close>: each of the three handlers starts with an unguarded
  \<^verbatim>\<open>Movie.objects.get\<close>, whose exception leaves the handler.
\<close>

definition MovieDetailView_get :: "int \<Rightarrow> 'v Request \<Rightarrow> Store \<Rightarrow> (exn + Response) \<times> Store" where
  "MovieDetailView_get movie_id request db =
     (case Movie_objects_get movie_id db of
        Inl e \<Rightarrow> (Inl e, db)
      | Inr movie \<Rightarrow> (Inr \<lparr>resp_data = MovieData movie, status_code = 200\<rparr>, db))"

definition MovieDetailView_put ::
  "int \<Rightarrow> jvalue Request \<Rightarrow> Store \<Rightarrow> (exn + Response) \<times> Store" where
  "MovieDetailView_put movie_id request db =
     (case Movie_objects_get movie_id db of
        Inl e \<Rightarrow> (Inl e, db)
      | Inr movie \<Rightarrow>
          (case MovieSerializer_is_valid (data request) of
             Inr (t, g) \<Rightarrow>
               (let m = movie\<lparr>title := t, genre := g\<rparr>
                in (Inr \<lparr>resp_data = MovieData m, status_code = 200\<rparr>,
                    db\<lparr>movies :=
                         map (\<lambda>x. if movie_pk x = movie_pk movie then m else x) (movies db)\<rparr>))
           | Inl errors \<Rightarrow> (Inr \<lparr>resp_data = FieldErrors errors, status_code = 400\<rparr>, db)))"

definition MovieDetailView_delete ::
  "int \<Rightarrow> 'v Request \<Rightarrow> Store \<Rightarrow> (exn + Response) \<times> Store" where
  "MovieDetailView_delete movie_id request db =
     (case Movie_objects_get movie_id db of
        Inl e \<Rightarrow> (Inl e, db)
      | Inr movie \<Rightarrow>
          (Inr \<lparr>resp_data = Message ''Movie deleted successfully'', status_code = 200\<rparr>,
           Movie_delete movie db))"

section \<open>Creating, updating and deleting reviews\<close>

text \<open>
  \<^verbatim>\<open>ReviewListCreateView.post\<close>: the movie of the path and the primary key of the acting
  user are written into the request data before the serializer sees them (for the anonymous
  user that key is \<^verbatim>\<open>None\<close>). The request data is a parsed JSON object, which can be
  written to; the \<^verbatim>\<open>print\<close> of the handler is left out.
\<close>

definition ReviewListCreateView_post ::
  "int \<Rightarrow> jvalue Request \<Rightarrow> Store \<Rightarrow> (exn + Response) \<times> Store" where
  "ReviewListCreateView_post movie_id request db =
     (let d = data request;
          d = d(''movie'' \<mapsto> JInt movie_id);
          d = d(''user'' \<mapsto> (case user request of None \<Rightarrow> JNull | Some u \<Rightarrow> JInt (user_pk u)))
      in case ReviewSerializer_is_valid d db of
           Inr validated_data \<Rightarrow>
             (case ReviewSerializer_create validated_data None None db of
                Inl e \<Rightarrow> (Inl e, db)
              | Inr (r, db') \<Rightarrow> (Inr \<lparr>resp_data = ReviewData r, status_code = 201\<rparr>, db'))
         | Inl errors \<Rightarrow> (Inr \<lparr>resp_data = FieldErrors errors, status_code = 400\<rparr>, db))"

definition CreateMovieReviewView_permission_classes :: "permission list" where
  "CreateMovieReviewView_permission_classes = [IsAuthenticated]"

text \<open>
  \<^verbatim>\<open>CreateMovieReviewView.post\<close>: the lookup of the movie is guarded, and the movie and
  the acting user go to \<^verbatim>\<open>save\<close> as keyword arguments. Assigning the anonymous user
  to the review is a \<^verbatim>\<open>ValueError\<close>.
\<close>

definition CreateMovieReviewView_post ::
  "int \<Rightarrow> jvalue Request \<Rightarrow> Store \<Rightarrow> (exn + Response) \<times> Store" where
  "CreateMovieReviewView_post movie_id request db =
     (case Movie_objects_get movie_id db of
        Inl e \<Rightarrow> (Inr \<lparr>resp_data = Error ''Movie not found.'', status_code = 404\<rparr>, db)
      | Inr movie \<Rightarrow>
          (case ReviewSerializer_is_valid (data request) db of
             Inr validated_data \<Rightarrow>
               (case user request of
                  None \<Rightarrow> (Inl ValueError, db)
                | Some u \<Rightarrow>
                    (case ReviewSerializer_create validated_data
                            (Some (movie_pk movie)) (Some (user_pk u)) db of
                       Inl e \<Rightarrow> (Inl e, db)
                     | Inr (r, db') \<Rightarrow>
                         (Inr \<lparr>resp_data = ReviewData r, status_code = 201\<rparr>, db')))
           | Inl errors \<Rightarrow> (Inr \<lparr>resp_data = FieldErrors errors, status_code = 400\<rparr>, db)))"

definition ReviewDetailView_permission_classes :: "permission list" where
  "ReviewDetailView_permission_classes = [IsAuthenticated]"

text \<open>
  \<^verbatim>\<open>Review.objects.get(id=review_id, user=request.user)\<close>: the review of that key written
  by that user, or \<^verbatim>\<open>Review.DoesNotExist\<close>. The anonymous user is no value for the
  lookup, a \<^verbatim>\<open>TypeError\<close>.
\<close>

definition Review_objects_get :: "int \<Rightarrow> User option \<Rightarrow> Store \<Rightarrow> exn + Review" where
  "Review_objects_get review_id usr db =
     (case usr of
        None \<Rightarrow> Inl TypeError
      | Some u \<Rightarrow>
          (case find (\<lambda>x. review_pk x = review_id \<and> review_user x = user_pk u) (reviews db) of
             None \<Rightarrow> Inl Review_DoesNotExist
           | Some r \<Rightarrow> Inr r))"

text \<open>
  \<^verbatim>\<open>ReviewDetailView\<close>: both handlers start with the unguarded lookup.
\<close>

definition ReviewDetailView_put ::
  "int \<Rightarrow> jvalue Request \<Rightarrow> Store \<Rightarrow> (exn + Response) \<times> Store" where
  "ReviewDetailView_put review_id request db =
     (case Review_objects_get review_id (user request) db of
        Inl e \<Rightarrow> (Inl e, db)
      | Inr review \<Rightarrow>
          (case ReviewSerializer_is_valid (data request) db of
             Inr validated_data \<Rightarrow>
               (case ReviewSerializer_update review validated_data db of
                  (r, db') \<Rightarrow> (Inr \<lparr>resp_data = ReviewData r, status_code = 200\<rparr>, db'))
           | Inl errors \<Rightarrow> (Inr \<lparr>resp_data = FieldErrors errors, status_code = 400\<rparr>, db)))"

definition ReviewDetailView_delete ::
  "int \<Rightarrow> 'v Request \<Rightarrow> Store \<Rightarrow> (exn + Response) \<times> Store" where
  "ReviewDetailView_delete review_id request db =
     (case Review_objects_get review_id (user request) db of
        Inl e \<Rightarrow> (Inl e, db)
      | Inr review \<Rightarrow>
          (Inr \<lparr>resp_data = Message ''Review deleted successfully'', status_code = 200\<rparr>,
           db\<lparr>reviews := filter (\<lambda>x. review_pk x \<noteq> review_pk review) (reviews db)\<rparr>))"

section \<open>Login\<close>

text \<open>
  The authentication collaborators of \<^verbatim>\<open>LoginView\<close>, as parameters: Django's
  \<^verbatim>\<open>authenticate\<close>, which returns the user, or \<^verbatim>\<open>None\<close> for credentials that do
  not authenticate, or raises; and the token library's \<^verbatim>\<open>RefreshToken.for_user\<close> and
  \<^verbatim>\<open>access_token\<close>. A token is a JSON Web Token; \<^verbatim>\<open>str(token)\<close> is its compact
  form, the three encoded segments joined by dots.
\<close>

record Token =
  header :: string
  payload :: string
  signature :: string

record AuthModule =
  authenticate :: "jvalue \<Rightarrow> jvalue \<Rightarrow> exn + User option"
  for_user :: "User \<Rightarrow> Token"
  access_token :: "Token \<Rightarrow> Token"

definition str_token :: "Token \<Rightarrow> string" where
  "str_token t = header t @ ''.'' @ payload t @ ''.'' @ signature t"

text \<open>Python's truth value of a field of the request data; a missing key is \<^verbatim>\<open>None\<close>.\<close>

fun truthy :: "jvalue option \<Rightarrow> bool" where
  "truthy None = False"
| "truthy (Some JNull) = False"
| "truthy (Some (JBool b)) = b"
| "truthy (Some (JInt n)) = (n \<noteq> 0)"
| "truthy (Some (JStr s)) = (s \<noteq> [])"

definition LoginView_permission_classes :: "permission list" where
  "LoginView_permission_classes = [AllowAny]"

text \<open>
  \<^verbatim>\<open>LoginView.post\<close>. The request data is a dictionary (a parsed JSON object or a
  form), read with \<^verbatim>\<open>get\<close>, so a missing key is \<^verbatim>\<open>None\<close>; \<^verbatim>\<open>not username\<close> is
  Python's truth test, which null, false, zero and the empty string fail as a missing key
  does. \<^verbatim>\<open>authenticate\<close> is called with the two values as they came; an exception
  it raises leaves the handler (Django's model backend hashes the password of an unknown
  user name, and \<^verbatim>\<open>make_password\<close> raises \<^verbatim>\<open>TypeError\<close> on a number). The handler
  does not touch the store.
\<close>

definition LoginView_post ::
  "AuthModule \<Rightarrow> jvalue Request \<Rightarrow> Store \<Rightarrow> (exn + Response) \<times> Store" where
  "LoginView_post auth request db =
     (let username_v = data request ''username'';
          password_v = data request ''password''
      in if \<not> truthy username_v \<or> \<not> truthy password_v then
           (Inr \<lparr>resp_data = Error ''Username and password are required'',
                 status_code = 400\<rparr>, db)
         else
           (case (username_v, password_v) of
              (Some un, Some pw) \<Rightarrow>
                (case authenticate auth un pw of
                   Inl e \<Rightarrow> (Inl e, db)
                 | Inr (Some usr) \<Rightarrow>
                     (let refresh = for_user auth usr
                      in (Inr \<lparr>resp_data = Tokens (str_token refresh)
                                              (str_token (access_token auth refresh)),
                               status_code = 200\<rparr>, db))
                 | Inr None \<Rightarrow>
                     (Inr \<lparr>resp_data = Error ''Invalid credentials'', status_code = 401\<rparr>, db))
            | _ \<Rightarrow>
                (Inr \<lparr>resp_data = Error ''Username and password are required'',
                      status_code = 400\<rparr>, db)))"

section \<open>Sample data\<close>

text \<open>
  A small store and three users, for the concrete instances below: Ann and Bob are plain
  users, Root is staff; Ann and Bob reviewed the first movie, Bob the second.
\<close>

abbreviation sample_ann :: User where
  "sample_ann \<equiv> \<lparr>user_pk = 1, username = ''ann'', email = ''ann@a.org'', password = ''h1'',
     first_name = ''Ann'', last_name = ''Lee'', is_staff = False\<rparr>"

abbreviation sample_bob :: User where
  "sample_bob \<equiv> \<lparr>user_pk = 2, username = ''bob'', email = ''bob@b.org'', password = ''h2'',
     first_name = ''Bob'', last_name = ''Ray'', is_staff = False\<rparr>"

abbreviation sample_root :: User where
  "sample_root \<equiv> \<lparr>user_pk = 3, username = ''root'', email = ''root@c.org'', password = ''h3'',
     first_name = ''Ro'', last_name = ''Ot'', is_staff = True\<rparr>"

abbreviation sample_matrix :: Movie where
  "sample_matrix \<equiv> \<lparr>movie_pk = 5, title = ''The Matrix'', genre = ''scifi''\<rparr>"

abbreviation sample_heat :: Movie where
  "sample_heat \<equiv> \<lparr>movie_pk = 6, title = ''Heat'', genre = ''crime''\<rparr>"

abbreviation sample_r1 :: Review where
  "sample_r1 \<equiv> \<lparr>review_pk = 1, review_movie = 5, review_user = 1, rating = 5,
     body = ''great''\<rparr>"

abbreviation sample_r2 :: Review where
  "sample_r2 \<equiv> \<lparr>review_pk = 2, review_movie = 5, review_user = 2, rating = 3,
     body = ''fine''\<rparr>"

abbreviation sample_r3 :: Review where
  "sample_r3 \<equiv> \<lparr>review_pk = 3, review_movie = 6, review_user = 2, rating = 5,
     body = ''tense''\<rparr>"

abbreviation sample_db :: Store where
  "sample_db \<equiv> \<lparr>users = [sample_ann, sample_bob, sample_root],
     movies = [sample_matrix, sample_heat],
     reviews = [sample_r1, sample_r2, sample_r3]\<rparr>"

text \<open>A request of a user with the given query parameters and body.\<close>

abbreviation sample_request ::
  "User \<Rightarrow> (string \<rightharpoonup> string) \<Rightarrow> (string \<rightharpoonup> 'v) \<Rightarrow> 'v Request" where
  "sample_request u q d \<equiv> \<lparr>user = Some u, query_params = q, data = d\<rparr>"

text \<open>
  An authentication module for the sample store: Ann's password is \<^verbatim>\<open>pw1\<close>; a token
  carries the user name, and the access token differs from the refresh token in its
  signature.
\<close>

abbreviation sample_auth :: AuthModule where
  "sample_auth \<equiv>
     \<lparr>authenticate = (\<lambda>un pw. if un = JStr ''ann'' \<and> pw = JStr ''pw1''
                                then Inr (Some sample_ann) else Inr None),
      for_user = (\<lambda>usr. \<lparr>header = ''h'', payload = username usr, signature = ''r''\<rparr>),
      access_token = (\<lambda>t. t\<lparr>signature := ''a''\<rparr>)\<rparr>"

section \<open>Facts about the parameters and the paginator\<close>

lemma py_int_Nil: "py_int [] = None"
  by (simp add: py_int_def strip_def)

lemma get_queryset_rating_empty:
  assumes "query_params request ''rating'' = Some []"
  shows "ReviewViewSet_get_queryset request db =
           ReviewViewSet_get_queryset
             (request\<lparr>query_params := (query_params request)(''rating'' := None)\<rparr>) db"
    and "\<exists>qs. ReviewViewSet_get_queryset request db = QuerySet qs"
  using assms by (simp_all add: ReviewViewSet_get_queryset_def Let_def)

lemma get_queryset_title_empty:
  assumes "query_params request ''movie_title'' = Some []"
  shows "ReviewViewSet_get_queryset request db =
           ReviewViewSet_get_queryset
             (request\<lparr>query_params := (query_params request)(''movie_title'' := None)\<rparr>) db"
  using assms by (simp add: ReviewViewSet_get_queryset_def Let_def split: option.split)

lemma get_reviews_rating_empty:
  assumes "query_params request ''rating'' = Some []"
  shows "ReviewListCreateView_get_reviews request movie_id db =
           ReviewListCreateView_get_reviews
             (request\<lparr>query_params := (query_params request)(''rating'' := None)\<rparr>) movie_id db"
    and "\<exists>qs. ReviewListCreateView_get_reviews request movie_id db = Inr qs"
  using assms by (simp_all add: ReviewListCreateView_get_reviews_def Let_def)

lemma get_reviews_title_empty:
  assumes "query_params request ''movie_title'' = Some []"
  shows "ReviewListCreateView_get_reviews request movie_id db =
           ReviewListCreateView_get_reviews
             (request\<lparr>query_params := (query_params request)(''movie_title'' := None)\<rparr>) movie_id db"
  using assms by (simp add: ReviewListCreateView_get_reviews_def Let_def split: option.split)

lemma py_int_last: "py_int ''last'' = None"
  by (simp add: py_int_def strip_def py_isspace_def is_digit_def)

lemma get_page_size_bounds: "1 \<le> get_page_size request \<and> get_page_size request \<le> 100"
  by (auto simp: get_page_size_def positive_int_def ReviewPagination_page_size_def
      ReviewPagination_max_page_size_def split: option.split)

lemma get_page_size_default:
  "query_params request ''page_size'' = None \<Longrightarrow> get_page_size request = 10"
  by (simp add: get_page_size_def ReviewPagination_page_size_query_param_def
      ReviewPagination_page_size_def)

lemma Paginator_page_QuerySet:
  assumes "Paginator_page num (QuerySet qs) per_page = Inr page"
  shows "paginator_count page = length qs" "length (object_list page) \<le> per_page"
    "set (object_list page) \<subseteq> set qs"
  using assms
  by (auto simp: Paginator_page_def Let_def split: sum.splits if_splits
      dest!: in_set_takeD in_set_dropD)

lemma paginate_queryset_Some:
  assumes "paginate_queryset q request = Inr (Some page)"
  shows "\<exists>num. Paginator_page num q (get_page_size request) = Inr page"
  using assms
  by (auto simp: paginate_queryset_def Let_def split: sum.splits if_splits exn.splits)

lemma paginate_queryset_page:
  assumes "paginate_queryset (QuerySet qs) request = Inr (Some page)"
  shows "paginator_count page = length qs" "length (object_list page) \<le> get_page_size request"
    "set (object_list page) \<subseteq> set qs"
  using paginate_queryset_Some [OF assms] Paginator_page_QuerySet by blast+

lemma paginate_queryset_beyond:
  assumes "query_params request ''page'' = Some s" "py_int s = Some n"
    and "int ((max 1 (length qs) + get_page_size request - 1) div get_page_size request) < n"
  shows "paginate_queryset (QuerySet qs) request = Inl (NotFound ''Invalid page.'')"
proof -
  have s: "s \<noteq> []" "s \<noteq> ''last''"
    using assms(2) py_int_Nil py_int_last by auto
  have ps: "get_page_size request \<noteq> 0"
    using get_page_size_bounds [of request] by simp
  have num: "get_page_number request (QuerySet qs) (get_page_size request) = Inr (PageStr s)"
    using assms(1) s by (simp add: get_page_number_def)
  have val: "validate_number (PageStr s) (QuerySet qs) (get_page_size request) = Inl EmptyPage"
    using assms(2,3) by (simp add: validate_number_def Paginator_num_pages_def)
  have "Paginator_page (PageStr s) (QuerySet qs) (get_page_size request) = Inl EmptyPage"
    by (simp add: Paginator_page_def val)
  then show ?thesis
    using ps num by (simp add: paginate_queryset_def Let_def)
qed

section \<open>An empty filter parameter is no filter\<close>

text \<open>
  C9. On both review lists an empty \<^verbatim>\<open>rating\<close> or \<^verbatim>\<open>movie_title\<close> is treated as
  a missing one: the reviews selected are those selected without the parameter, and an
  empty rating gives a queryset, never the 400 response, although the empty string is no
  integer for \<^verbatim>\<open>int\<close>.
\<close>

theorem empty_parameter_is_absent:
  "py_int [] = None
   \<and> (query_params request ''rating'' = Some [] \<longrightarrow>
        ReviewViewSet_get_queryset request db =
          ReviewViewSet_get_queryset
            (request\<lparr>query_params := (query_params request)(''rating'' := None)\<rparr>) db
      \<and> (\<exists>qs. ReviewViewSet_get_queryset request db = QuerySet qs)
      \<and> ReviewListCreateView_get_reviews request movie_id db =
          ReviewListCreateView_get_reviews
            (request\<lparr>query_params := (query_params request)(''rating'' := None)\<rparr>) movie_id db
      \<and> (\<exists>qs. ReviewListCreateView_get_reviews request movie_id db = Inr qs))
   \<and> (query_params request ''movie_title'' = Some [] \<longrightarrow>
        ReviewViewSet_get_queryset request db =
          ReviewViewSet_get_queryset
            (request\<lparr>query_params := (query_params request)(''movie_title'' := None)\<rparr>) db
      \<and> ReviewListCreateView_get_reviews request movie_id db =
          ReviewListCreateView_get_reviews
            (request\<lparr>query_params := (query_params request)(''movie_title'' := None)\<rparr>)
            movie_id db)"
  using py_int_Nil get_queryset_rating_empty [of request db]
    get_reviews_rating_empty [of request movie_id db]
    get_queryset_title_empty [of request db] get_reviews_title_empty [of request movie_id db]
  by blast

theorem empty_parameter_is_absent_witness:
  "query_params
     (sample_request sample_ann [''rating'' \<mapsto> [], ''movie_title'' \<mapsto> []] (Map.empty :: string \<rightharpoonup> jvalue))
     ''rating'' = Some []
   \<and> query_params
     (sample_request sample_ann [''rating'' \<mapsto> [], ''movie_title'' \<mapsto> []] (Map.empty :: string \<rightharpoonup> jvalue))
     ''movie_title'' = Some []
   \<and> ReviewViewSet_get_queryset
       (sample_request sample_ann [''rating'' \<mapsto> [], ''movie_title'' \<mapsto> []] (Map.empty :: string \<rightharpoonup> jvalue))
       sample_db
     = ReviewViewSet_get_queryset
       (sample_request sample_ann [''movie_title'' \<mapsto> []] (Map.empty :: string \<rightharpoonup> jvalue)) sample_db
   \<and> ReviewListCreateView_get_reviews
       (sample_request sample_ann [''rating'' \<mapsto> [], ''movie_title'' \<mapsto> []] (Map.empty :: string \<rightharpoonup> jvalue))
       5 sample_db
     = ReviewListCreateView_get_reviews
       (sample_request sample_ann [''movie_title'' \<mapsto> []] (Map.empty :: string \<rightharpoonup> jvalue)) 5 sample_db"
  using empty_parameter_is_absent [of
      "sample_request sample_ann [''rating'' \<mapsto> [], ''movie_title'' \<mapsto> []] (Map.empty :: string \<rightharpoonup> jvalue)"
      sample_db 5]
  by (simp add: fun_upd_twist)

section \<open>The rating filter and the title filter\<close>

lemma get_queryset_rating:
  assumes "query_params request ''rating'' = Some s" "py_int s = Some r" "1 \<le> r" "r \<le> 5"
  shows "ReviewViewSet_get_queryset request db =
     QuerySet (filter (\<lambda>x. rating x = r)
       (case query_params request ''movie_title'' of
          None \<Rightarrow> reviews db
        | Some t \<Rightarrow> if t \<noteq> [] then filter (movie__title__icontains db t) (reviews db)
                    else reviews db))"
proof -
  have "s \<noteq> []" using assms(2) py_int_Nil by auto
  then show ?thesis
    using assms by (simp add: ReviewViewSet_get_queryset_def Let_def)
qed

lemma get_reviews_rating:
  assumes "query_params request ''rating'' = Some s" "py_int s = Some r" "1 \<le> r" "r \<le> 5"
  shows "ReviewListCreateView_get_reviews request movie_id db =
     Inr (filter (\<lambda>x. rating x = r)
       (case query_params request ''movie_title'' of
          None \<Rightarrow> filter (\<lambda>x. review_movie x = movie_id) (reviews db)
        | Some t \<Rightarrow>
            if t \<noteq> [] then filter (movie__title__icontains db t)
                              (filter (\<lambda>x. review_movie x = movie_id) (reviews db))
            else filter (\<lambda>x. review_movie x = movie_id) (reviews db)))"
proof -
  have "s \<noteq> []" using assms(2) py_int_Nil by auto
  then show ?thesis
    using assms by (simp add: ReviewListCreateView_get_reviews_def Let_def)
qed

lemma list_results:
  assumes "ReviewViewSet_get_queryset request db = QuerySet qs"
    and "ReviewViewSet_list request db = (Inr resp, db')" "resp_data resp = Page env"
  shows "set (results env) \<subseteq> set qs \<and> length (results env) \<le> get_page_size request
         \<and> count env = length qs \<and> status_code resp = 200 \<and> db' = db"
proof (cases "paginate_queryset (QuerySet qs) request")
  case (Inl e)
  then show ?thesis using assms by (simp add: ReviewViewSet_list_def)
next
  case (Inr p)
  show ?thesis
  proof (cases p)
    case None
    then have "get_page_size request = 0"
      using Inr by (auto simp: paginate_queryset_def Let_def split: if_splits sum.splits exn.splits)
    then show ?thesis using get_page_size_bounds [of request] by simp
  next
    case (Some page)
    have r: "resp = get_paginated_response page" "db' = db"
      using assms Inr Some by (simp_all add: ReviewViewSet_list_def)
    have e: "env = \<lparr>count = paginator_count page,
         next_page = (if number page < paginator_num_pages page
                      then Some (number page + 1) else None),
         previous_page = (if 1 < number page then Some (number page - 1) else None),
         results = object_list page\<rparr>" "status_code resp = 200"
      using r(1) assms(3) by (simp_all add: get_paginated_response_def)
    show ?thesis
      using paginate_queryset_page [of qs request page] Inr Some e r(2) by simp
  qed
qed

lemma get_results:
  assumes "ReviewListCreateView_get_reviews request movie_id db = Inr qs"
    and "ReviewListCreateView_get movie_id request db = (Inr resp, db')"
      "resp_data resp = Page env"
  shows "set (results env) \<subseteq> set qs \<and> length (results env) \<le> get_page_size request
         \<and> count env = length qs \<and> status_code resp = 200 \<and> db' = db"
proof (cases "paginate_queryset (QuerySet qs) request")
  case (Inl e)
  then show ?thesis using assms by (simp add: ReviewListCreateView_get_def)
next
  case (Inr p)
  show ?thesis
  proof (cases p)
    case None
    then show ?thesis using assms Inr by (simp add: ReviewListCreateView_get_def)
  next
    case (Some page)
    have r: "resp = get_paginated_response page" "db' = db"
      using assms Inr Some by (simp_all add: ReviewListCreateView_get_def)
    have e: "env = \<lparr>count = paginator_count page,
         next_page = (if number page < paginator_num_pages page
                      then Some (number page + 1) else None),
         previous_page = (if 1 < number page then Some (number page - 1) else None),
         results = object_list page\<rparr>" "status_code resp = 200"
      using r(1) assms(3) by (simp_all add: get_paginated_response_def)
    show ?thesis
      using paginate_queryset_page [of qs request page] Inr Some e r(2) by simp
  qed
qed

text \<open>
  C5. With a rating parameter that \<^verbatim>\<open>int\<close> reads as \<open>r\<close> from 1 to 5, every review
  selected has rating \<open>r\<close>, and so has every review on a page of either list. With a
  title filter given too, the selection is exactly the reviews that pass both filters: on
  the generic list out of all reviews, on the list of a movie out of the reviews of that
  movie.
\<close>

theorem rating_filter_exact:
  assumes "query_params request ''rating'' = Some s" "py_int s = Some r" "1 \<le> r" "r \<le> 5"
  shows "(\<exists>qs. ReviewViewSet_get_queryset request db = QuerySet qs
            \<and> (\<forall>x\<in>set qs. rating x = r)
            \<and> (\<forall>t. query_params request ''movie_title'' = Some t \<and> t \<noteq> [] \<longrightarrow>
                  qs = filter (\<lambda>x. movie__title__icontains db t x \<and> rating x = r) (reviews db)))
       \<and> (\<exists>qs. ReviewListCreateView_get_reviews request movie_id db = Inr qs
            \<and> (\<forall>x\<in>set qs. rating x = r)
            \<and> (\<forall>t. query_params request ''movie_title'' = Some t \<and> t \<noteq> [] \<longrightarrow>
                  qs = filter (\<lambda>x. review_movie x = movie_id \<and> movie__title__icontains db t x
                                  \<and> rating x = r) (reviews db)))
       \<and> (\<forall>resp db' env. ReviewViewSet_list request db = (Inr resp, db')
              \<and> resp_data resp = Page env \<longrightarrow> (\<forall>x\<in>set (results env). rating x = r))
       \<and> (\<forall>resp db' env. ReviewListCreateView_get movie_id request db = (Inr resp, db')
              \<and> resp_data resp = Page env \<longrightarrow> (\<forall>x\<in>set (results env). rating x = r))"
proof -
  note g = get_queryset_rating [OF assms, of db]
  note m = get_reviews_rating [OF assms, of movie_id db]
  have a: "\<exists>qs. ReviewViewSet_get_queryset request db = QuerySet qs
            \<and> (\<forall>x\<in>set qs. rating x = r)
            \<and> (\<forall>t. query_params request ''movie_title'' = Some t \<and> t \<noteq> [] \<longrightarrow>
                  qs = filter (\<lambda>x. movie__title__icontains db t x \<and> rating x = r) (reviews db))"
    unfolding g by (rule exI, intro conjI, rule refl) (simp_all split: option.split)
  have b: "\<exists>qs. ReviewListCreateView_get_reviews request movie_id db = Inr qs
            \<and> (\<forall>x\<in>set qs. rating x = r)
            \<and> (\<forall>t. query_params request ''movie_title'' = Some t \<and> t \<noteq> [] \<longrightarrow>
                  qs = filter (\<lambda>x. review_movie x = movie_id \<and> movie__title__icontains db t x
                                  \<and> rating x = r) (reviews db))"
    unfolding m by (rule exI, intro conjI, rule refl) (simp_all split: option.split)
  have c: "\<forall>resp db' env. ReviewViewSet_list request db = (Inr resp, db')
              \<and> resp_data resp = Page env \<longrightarrow> (\<forall>x\<in>set (results env). rating x = r)"
    using list_results [OF g] by fastforce
  have d: "\<forall>resp db' env. ReviewListCreateView_get movie_id request db = (Inr resp, db')
              \<and> resp_data resp = Page env \<longrightarrow> (\<forall>x\<in>set (results env). rating x = r)"
    using get_results [OF m] by fastforce
  show ?thesis using a b c d by blast
qed

text \<open>
  The theorem at a request for rating 5 and the title \<^verbatim>\<open>matrix\<close> on the sample
  store: of its three reviews the one of rating 5 on The Matrix is selected.
\<close>

theorem rating_filter_exact_witness:
  "query_params
     (sample_request sample_ann [''rating'' \<mapsto> ''5'', ''movie_title'' \<mapsto> ''matrix'']
        (Map.empty :: string \<rightharpoonup> jvalue)) ''rating'' = Some ''5''
   \<and> py_int ''5'' = Some 5
   \<and> ReviewViewSet_get_queryset
        (sample_request sample_ann [''rating'' \<mapsto> ''5'', ''movie_title'' \<mapsto> ''matrix'']
           (Map.empty :: string \<rightharpoonup> jvalue)) sample_db
      = QuerySet [sample_r1]
   \<and> ReviewListCreateView_get_reviews
        (sample_request sample_ann [''rating'' \<mapsto> ''5'', ''movie_title'' \<mapsto> ''matrix'']
           (Map.empty :: string \<rightharpoonup> jvalue)) 5 sample_db
      = Inr [sample_r1]"
proof -
  let ?R = "sample_request sample_ann [''rating'' \<mapsto> ''5'', ''movie_title'' \<mapsto> ''matrix'']
              (Map.empty :: string \<rightharpoonup> jvalue)"
  have h1: "query_params ?R ''rating'' = Some ''5''" by simp
  have h2: "py_int ''5'' = Some 5" by code_simp
  have h3: "(1::int) \<le> 5" and h4: "(5::int) \<le> 5" by simp_all
  have h5: "query_params ?R ''movie_title'' = Some ''matrix'' \<and> ''matrix'' \<noteq> []" by simp
  have f1: "filter (\<lambda>x. movie__title__icontains sample_db ''matrix'' x \<and> rating x = 5)
              (reviews sample_db) = [sample_r1]"
    by code_simp
  have f2: "filter (\<lambda>x. review_movie x = 5 \<and> movie__title__icontains sample_db ''matrix'' x
                        \<and> rating x = 5) (reviews sample_db) = [sample_r1]"
    by code_simp
  note t = rating_filter_exact [OF h1 h2 h3 h4, of sample_db 5]
  from t [THEN conjunct1] obtain qs where
    q: "ReviewViewSet_get_queryset ?R sample_db = QuerySet qs" and
    e: "\<forall>t. query_params ?R ''movie_title'' = Some t \<and> t \<noteq> [] \<longrightarrow>
          qs = filter (\<lambda>x. movie__title__icontains sample_db t x \<and> rating x = 5)
                 (reviews sample_db)"
    by (elim exE conjE)
  have g: "ReviewViewSet_get_queryset ?R sample_db = QuerySet [sample_r1]"
    using q e [THEN spec, THEN mp, OF h5] f1 by (simp only:)
  from t [THEN conjunct2, THEN conjunct1] obtain qs' where
    q': "ReviewListCreateView_get_reviews ?R 5 sample_db = Inr qs'" and
    e': "\<forall>t. query_params ?R ''movie_title'' = Some t \<and> t \<noteq> [] \<longrightarrow>
          qs' = filter (\<lambda>x. review_movie x = 5 \<and> movie__title__icontains sample_db t x
                            \<and> rating x = 5) (reviews sample_db)"
    by (elim exE conjE)
  have m: "ReviewListCreateView_get_reviews ?R 5 sample_db = Inr [sample_r1]"
    using q' e' [THEN spec, THEN mp, OF h5] f2 by (simp only:)
  show ?thesis
    by (intro conjI) (rule h1, rule h2, rule g, rule m)
qed

section \<open>A bad rating on the two review lists\<close>

text \<open>
  A rating that is not empty and that \<^verbatim>\<open>int\<close> rejects or reads outside 1 to 5: the list
  of a movie returns the 400 response; \<^verbatim>\<open>ReviewViewSet.get_queryset\<close> returns the same
  response in the place of the queryset, and the paginator of \<^verbatim>\<open>ReviewViewSet.list\<close>
  fails on it, with a \<^verbatim>\<open>TypeError\<close> (or with \<^verbatim>\<open>NotFound\<close> when the page parameter
  is itself invalid). The generic list never answers 400.
\<close>

lemma get_queryset_bad_rating:
  assumes "query_params request ''rating'' = Some s" "s \<noteq> []"
    and "py_int s = None \<or> (\<exists>r. py_int s = Some r \<and> (r < 1 \<or> 5 < r))"
  shows "\<exists>msg. ReviewViewSet_get_queryset request db =
           ResponseObj \<lparr>resp_data = Error msg, status_code = 400\<rparr>"
  using assms by (auto simp: ReviewViewSet_get_queryset_def Let_def)

lemma get_reviews_bad_rating:
  assumes "query_params request ''rating'' = Some s" "s \<noteq> []"
    and "py_int s = None \<or> (\<exists>r. py_int s = Some r \<and> (r < 1 \<or> 5 < r))"
  shows "\<exists>msg. ReviewListCreateView_get_reviews request movie_id db =
           Inl \<lparr>resp_data = Error msg, status_code = 400\<rparr>"
  using assms by (auto simp: ReviewListCreateView_get_reviews_def Let_def)

lemma Paginator_page_ResponseObj:
  "Paginator_page num (ResponseObj r) per_page \<in> {Inl TypeError, Inl PageNotAnInteger, Inl EmptyPage}"
  by (simp add: Paginator_page_def validate_number_def Paginator_num_pages_def
      split: option.split page_number.split)

lemma paginate_queryset_ResponseObj:
  "paginate_queryset (ResponseObj r) request = Inl TypeError
   \<or> paginate_queryset (ResponseObj r) request = Inl (NotFound ''Invalid page.'')"
proof -
  have ps: "get_page_size request \<noteq> 0"
    using get_page_size_bounds [of request] by simp
  show ?thesis
  proof (cases "get_page_number request (ResponseObj r) (get_page_size request)")
    case (Inl e)
    then have "e = TypeError"
      by (auto simp: get_page_number_def Paginator_num_pages_def split: option.splits if_splits)
    then show ?thesis using Inl ps by (simp add: paginate_queryset_def Let_def)
  next
    case (Inr n)
    show ?thesis
      using Paginator_page_ResponseObj [of n r "get_page_size request"] Inr ps
      by (auto simp: paginate_queryset_def Let_def)
  qed
qed

lemma list_bad_rating:
  assumes "user request = Some u"
    and "query_params request ''rating'' = Some s" "s \<noteq> []"
    and "py_int s = None \<or> (\<exists>r. py_int s = Some r \<and> (r < 1 \<or> 5 < r))"
  shows "dispatch ReviewViewSet_permission_classes ReviewViewSet_list request db
           = (Inl TypeError, db)
       \<or> dispatch ReviewViewSet_permission_classes ReviewViewSet_list request db
           = (Inr \<lparr>resp_data = Detail ''Invalid page.'', status_code = 404\<rparr>, db)"
proof -
  from get_queryset_bad_rating [OF assms(2-4), of db] obtain msg where
    q: "ReviewViewSet_get_queryset request db =
          ResponseObj \<lparr>resp_data = Error msg, status_code = 400\<rparr>" by blast
  have p: "list_all (\<lambda>p. has_permission p request) ReviewViewSet_permission_classes"
    using assms(1) by (simp add: ReviewViewSet_permission_classes_def)
  show ?thesis
    using paginate_queryset_ResponseObj [of "\<lparr>resp_data = Error msg, status_code = 400\<rparr>" request]
    by (auto simp: dispatch_def p ReviewViewSet_list_def q)
qed

text \<open>
  C2. The claim asks for a 400 response on both lists. For the ratings \<^verbatim>\<open>abc\<close> and
  \<^verbatim>\<open>9\<close> the generic list ends in an unhandled \<^verbatim>\<open>TypeError\<close>; the list of a movie
  answers 400 for \<^verbatim>\<open>abc\<close>.
\<close>

theorem ReviewViewSet_list_bad_rating_raises:
  "dispatch ReviewViewSet_permission_classes ReviewViewSet_list
     (sample_request sample_ann [''rating'' \<mapsto> ''abc''] (Map.empty :: string \<rightharpoonup> jvalue))
     sample_db
   = (Inl TypeError, sample_db)
   \<and> dispatch ReviewViewSet_permission_classes ReviewViewSet_list
     (sample_request sample_ann [''rating'' \<mapsto> ''9''] (Map.empty :: string \<rightharpoonup> jvalue))
     sample_db
   = (Inl TypeError, sample_db)
   \<and> dispatch ReviewListCreateView_permission_classes (ReviewListCreateView_get 5)
     (sample_request sample_ann [''rating'' \<mapsto> ''abc''] (Map.empty :: string \<rightharpoonup> jvalue))
     sample_db
   = (Inr \<lparr>resp_data = Error
              ''Invalid rating value. Rating must be an integer between 1 and 5.'',
            status_code = 400\<rparr>, sample_db)"
  by code_simp

section \<open>Updating or deleting the review of another user\<close>

text \<open>
  When no review has the key of the path and the acting user as its author, the lookup of
  \<^verbatim>\<open>ReviewDetailView\<close> raises \<^verbatim>\<open>Review.DoesNotExist\<close>; neither handler catches it and
  it is no exception the framework turns into a response. The store is unchanged.
\<close>

lemma Review_objects_get_not_owner:
  assumes "user request = Some u"
    and "\<not> list_ex (\<lambda>x. review_pk x = review_id \<and> review_user x = user_pk u) (reviews db)"
  shows "Review_objects_get review_id (user request) db = Inl Review_DoesNotExist"
proof -
  have "find (\<lambda>x. review_pk x = review_id \<and> review_user x = user_pk u) (reviews db) = None"
    using assms(2) by (simp add: find_None_iff list_ex_iff)
  then show ?thesis using assms(1) by (simp add: Review_objects_get_def)
qed

lemma ReviewDetailView_not_owner:
  assumes "user request = Some u"
    and "\<not> list_ex (\<lambda>x. review_pk x = review_id \<and> review_user x = user_pk u) (reviews db)"
  shows "dispatch ReviewDetailView_permission_classes (ReviewDetailView_put review_id) request db
           = (Inl Review_DoesNotExist, db)"
    and "dispatch ReviewDetailView_permission_classes (ReviewDetailView_delete review_id)
           request db = (Inl Review_DoesNotExist, db)"
  using assms Review_objects_get_not_owner [of request u review_id db]
  by (simp_all add: dispatch_def ReviewDetailView_permission_classes_def ReviewDetailView_put_def
      ReviewDetailView_delete_def)

text \<open>
  C1. The claim asks for a 404 response. Ann deletes, then updates, review 2, which Bob
  wrote: both requests end in the unhandled \<^verbatim>\<open>Review.DoesNotExist\<close>, with the store
  unchanged.
\<close>

theorem ReviewDetailView_not_owner_raises:
  "dispatch ReviewDetailView_permission_classes (ReviewDetailView_delete 2)
     (sample_request sample_ann Map.empty (Map.empty :: string \<rightharpoonup> jvalue)) sample_db
   = (Inl Review_DoesNotExist, sample_db)
   \<and> dispatch ReviewDetailView_permission_classes (ReviewDetailView_put 2)
     (sample_request sample_ann Map.empty [''rating'' \<mapsto> JInt 1]) sample_db
   = (Inl Review_DoesNotExist, sample_db)"
  by code_simp

section \<open>Looking up a movie that does not exist\<close>

lemma MovieDetailView_missing:
  assumes "user request = Some u" "is_staff u"
    and "\<not> list_ex (\<lambda>m. movie_pk m = movie_id) (movies db)"
  shows "dispatch MovieDetailView_permission_classes (MovieDetailView_get movie_id) request db
           = (Inl Movie_DoesNotExist, db)"
    and "dispatch MovieDetailView_permission_classes (MovieDetailView_put movie_id) request db
           = (Inl Movie_DoesNotExist, db)"
    and "dispatch MovieDetailView_permission_classes (MovieDetailView_delete movie_id) request db
           = (Inl Movie_DoesNotExist, db)"
proof -
  have "find (\<lambda>m. movie_pk m = movie_id) (movies db) = None"
    using assms(3) by (simp add: find_None_iff list_ex_iff)
  then have g: "Movie_objects_get movie_id db = Inl Movie_DoesNotExist"
    by (simp add: Movie_objects_get_def)
  show "dispatch MovieDetailView_permission_classes (MovieDetailView_get movie_id) request db
           = (Inl Movie_DoesNotExist, db)"
    using assms(1,2) g
    by (simp add: dispatch_def MovieDetailView_permission_classes_def MovieDetailView_get_def)
  show "dispatch MovieDetailView_permission_classes (MovieDetailView_put movie_id) request db
           = (Inl Movie_DoesNotExist, db)"
    using assms(1,2) g
    by (simp add: dispatch_def MovieDetailView_permission_classes_def MovieDetailView_put_def)
  show "dispatch MovieDetailView_permission_classes (MovieDetailView_delete movie_id) request db
           = (Inl Movie_DoesNotExist, db)"
    using assms(1,2) g
    by (simp add: dispatch_def MovieDetailView_permission_classes_def MovieDetailView_delete_def)
qed

text \<open>
  C6. The claim asks for a 404 response on every lookup of a missing resource. The staff
  user Root reads, updates and deletes movie 9, which the store does not hold: each request
  ends in the unhandled \<^verbatim>\<open>Movie.DoesNotExist\<close>. \<^verbatim>\<open>CreateMovieReviewView.post\<close>, which
  guards the same lookup, answers 404 for the same movie.
\<close>

theorem MovieDetailView_missing_raises:
  "dispatch MovieDetailView_permission_classes (MovieDetailView_get 9)
     (sample_request sample_root Map.empty (Map.empty :: string \<rightharpoonup> jvalue)) sample_db
   = (Inl Movie_DoesNotExist, sample_db)
   \<and> dispatch MovieDetailView_permission_classes (MovieDetailView_put 9)
     (sample_request sample_root Map.empty [''title'' \<mapsto> JStr ''Ran'', ''genre'' \<mapsto> JStr ''war''])
     sample_db
   = (Inl Movie_DoesNotExist, sample_db)
   \<and> dispatch MovieDetailView_permission_classes (MovieDetailView_delete 9)
     (sample_request sample_root Map.empty (Map.empty :: string \<rightharpoonup> jvalue)) sample_db
   = (Inl Movie_DoesNotExist, sample_db)
   \<and> dispatch CreateMovieReviewView_permission_classes (CreateMovieReviewView_post 9)
     (sample_request sample_root Map.empty [''rating'' \<mapsto> JInt 4]) sample_db
   = (Inr \<lparr>resp_data = Error ''Movie not found.'', status_code = 404\<rparr>, sample_db)"
  by code_simp

section \<open>Who may change the movie catalog\<close>

text \<open>
  The claim C4 as stated, that every create, update or delete of a movie by a user who is
  not an admin is refused with 403 and leaves the catalog as it was, fails on
  \<^verbatim>\<open>MovieViewSet\<close>, whose only permission class is \<^verbatim>\<open>IsAuthenticated\<close>: Ann, who is
  not staff, deletes movie 5 through it, is answered 204, and the movie and its reviews are
  gone.
\<close>

theorem MovieViewSet_destroy_by_plain_user:
  "dispatch MovieViewSet_permission_classes (MovieViewSet_destroy 5)
     (sample_request sample_ann Map.empty (Map.empty :: string \<rightharpoonup> jvalue)) sample_db
   = (Inr \<lparr>resp_data = NoContent, status_code = 204\<rparr>,
      \<lparr>users = [sample_ann, sample_bob, sample_root], movies = [sample_heat],
       reviews = [sample_r3]\<rparr>)"
  by code_simp

text \<open>
  C4, amended. Through \<^verbatim>\<open>MovieListCreateView\<close> and \<^verbatim>\<open>MovieDetailView\<close>, whose
  permission class is \<^verbatim>\<open>IsAdminUser\<close>, a create, update or delete by an authenticated
  user who is not staff is refused with 403 and the store is unchanged.
\<close>

theorem movie_admin_views_forbidden:
  assumes "user request = Some u" "\<not> is_staff u"
  shows "dispatch MovieListCreateView_permission_classes MovieListCreateView_post request db
           = (Inr \<lparr>resp_data = Detail ''You do not have permission to perform this action.'',
                   status_code = 403\<rparr>, db)
       \<and> dispatch MovieDetailView_permission_classes (MovieDetailView_put movie_id) request db
           = (Inr \<lparr>resp_data = Detail ''You do not have permission to perform this action.'',
                   status_code = 403\<rparr>, db)
       \<and> dispatch MovieDetailView_permission_classes (MovieDetailView_delete movie_id) request db
           = (Inr \<lparr>resp_data = Detail ''You do not have permission to perform this action.'',
                   status_code = 403\<rparr>, db)"
  using assms
  by (simp add: dispatch_def MovieListCreateView_permission_classes_def
      MovieDetailView_permission_classes_def)

text \<open>The theorem for Ann on the sample store.\<close>

theorem movie_admin_views_forbidden_witness:
  "user (sample_request sample_ann Map.empty [''title'' \<mapsto> JStr ''Ran'', ''genre'' \<mapsto> JStr ''war''])
     = Some sample_ann
   \<and> \<not> is_staff sample_ann
   \<and> dispatch MovieListCreateView_permission_classes MovieListCreateView_post
       (sample_request sample_ann Map.empty [''title'' \<mapsto> JStr ''Ran'', ''genre'' \<mapsto> JStr ''war''])
       sample_db
     = (Inr \<lparr>resp_data = Detail ''You do not have permission to perform this action.'',
              status_code = 403\<rparr>, sample_db)
   \<and> dispatch MovieDetailView_permission_classes (MovieDetailView_put 5)
       (sample_request sample_ann Map.empty [''title'' \<mapsto> JStr ''Ran'', ''genre'' \<mapsto> JStr ''war''])
       sample_db
     = (Inr \<lparr>resp_data = Detail ''You do not have permission to perform this action.'',
              status_code = 403\<rparr>, sample_db)
   \<and> dispatch MovieDetailView_permission_classes (MovieDetailView_delete 5)
       (sample_request sample_ann Map.empty [''title'' \<mapsto> JStr ''Ran'', ''genre'' \<mapsto> JStr ''war''])
       sample_db
     = (Inr \<lparr>resp_data = Detail ''You do not have permission to perform this action.'',
              status_code = 403\<rparr>, sample_db)"
proof -
  let ?R = "sample_request sample_ann Map.empty
              [''title'' \<mapsto> JStr ''Ran'', ''genre'' \<mapsto> JStr ''war'']"
  have h1: "user ?R = Some sample_ann" by simp
  have h2: "\<not> is_staff sample_ann" by simp
  note t = movie_admin_views_forbidden [OF h1 h2, of sample_db 5]
  show ?thesis
    by (intro conjI) (rule h1, rule h2, rule t [THEN conjunct1],
        rule t [THEN conjunct2, THEN conjunct1], rule t [THEN conjunct2, THEN conjunct2])
qed

section \<open>Page size and pages beyond the last\<close>

lemma num_pages_beyond:
  assumes "0 < ps" "1 < n" "int c \<le> (n - 1) * int ps"
  shows "int ((max 1 c + ps - 1) div ps) < n"
proof -
  define k where "k = nat (n - 1)"
  have k: "1 \<le> k" "n = int k + 1" using assms(2) by (simp_all add: k_def)
  have c: "c \<le> k * ps" using assms(3) k(2) by (simp flip: of_nat_mult)
  have one: "1 \<le> k * ps" using k(1) assms(1) by (simp add: Suc_le_eq)
  have "max 1 c + ps - 1 \<le> k * ps + (ps - 1)"
    using c one assms(1) by arith
  then have "(max 1 c + ps - 1) div ps \<le> (k * ps + (ps - 1)) div ps"
    by (rule div_le_mono)
  also have "\<dots> = k + (ps - 1) div ps"
    by (rule div_mult_self3) (use assms(1) in simp)
  also have "(ps - 1) div ps = 0"
    by (rule div_less) (use assms(1) in simp)
  finally have "(max 1 c + ps - 1) div ps \<le> k" by simp
  then show ?thesis using k(2) by simp
qed

lemma list_beyond:
  assumes "ReviewViewSet_get_queryset request db = QuerySet qs"
    and "query_params request ''page'' = Some s" "py_int s = Some n"
    and "1 < n" "int (length qs) \<le> (n - 1) * int (get_page_size request)"
  shows "ReviewViewSet_list request db = (Inl (NotFound ''Invalid page.''), db)"
proof -
  have ps: "0 < get_page_size request"
    using get_page_size_bounds [of request] by simp
  have "paginate_queryset (QuerySet qs) request = Inl (NotFound ''Invalid page.'')"
    using assms(2,3) num_pages_beyond [OF ps assms(4,5)] by (rule paginate_queryset_beyond)
  then show ?thesis using assms(1) by (simp add: ReviewViewSet_list_def)
qed

lemma get_beyond:
  assumes "ReviewListCreateView_get_reviews request movie_id db = Inr qs"
    and "query_params request ''page'' = Some s" "py_int s = Some n"
    and "1 < n" "int (length qs) \<le> (n - 1) * int (get_page_size request)"
  shows "ReviewListCreateView_get movie_id request db = (Inl (NotFound ''Invalid page.''), db)"
proof -
  have ps: "0 < get_page_size request"
    using get_page_size_bounds [of request] by simp
  have "paginate_queryset (QuerySet qs) request = Inl (NotFound ''Invalid page.'')"
    using assms(2,3) num_pages_beyond [OF ps assms(4,5)] by (rule paginate_queryset_beyond)
  then show ?thesis using assms(1) by (simp add: ReviewListCreateView_get_def)
qed

lemma list_page_length:
  assumes "ReviewViewSet_list request db = (Inr resp, db')" "resp_data resp = Page env"
  shows "length (results env) \<le> get_page_size request"
proof (cases "ReviewViewSet_get_queryset request db")
  case (QuerySet qs)
  then show ?thesis using list_results [OF QuerySet assms] by simp
next
  case (ResponseObj r)
  then show ?thesis
    using assms(1) paginate_queryset_ResponseObj [of r request]
    by (auto simp: ReviewViewSet_list_def)
qed

lemma get_page_length:
  assumes "ReviewListCreateView_get movie_id request db = (Inr resp, db')"
    "resp_data resp = Page env"
  shows "length (results env) \<le> get_page_size request"
proof (cases "ReviewListCreateView_get_reviews request movie_id db")
  case (Inl r)
  then have "resp = r" using assms(1) by (simp add: ReviewListCreateView_get_def)
  moreover have "\<exists>msg. resp_data r = Error msg"
    using Inl
    by (auto simp: ReviewListCreateView_get_reviews_def Let_def
        split: option.splits if_splits)
  ultimately show ?thesis using assms(2) by auto
next
  case (Inr qs)
  then show ?thesis using get_results [OF Inr assms] by simp
qed


lemma dispatch_authenticated:
  assumes "user request = Some u"
  shows "dispatch [IsAuthenticated] h request db =
           (case h request db of
              (Inl e, db') \<Rightarrow> (handle_exception e, db')
            | (Inr response, db') \<Rightarrow> (Inr response, db'))"
  using assms by (simp add: dispatch_def)

lemma handle_exception_no_page:
  "handle_exception e = Inr resp \<Longrightarrow> resp_data resp \<noteq> Page env"
  by (cases e) auto

lemma dispatch_page:
  assumes "user request = Some u"
    and "dispatch [IsAuthenticated] h request db = (Inr resp, db')" "resp_data resp = Page env"
  shows "h request db = (Inr resp, db')"
proof (cases "h request db")
  case (Pair a d)
  show ?thesis
  proof (cases a)
    case (Inl e)
    then show ?thesis
      using assms handle_exception_no_page [of e resp env] Pair
      by (simp add: dispatch_authenticated)
  next
    case (Inr r)
    then show ?thesis using assms Pair by (simp add: dispatch_authenticated)
  qed
qed

text \<open>
  The claim C3 as stated has a page beyond the last come back as an empty page with a valid
  envelope. The paginator refuses such a page: Ann asks for page 2 of the two reviews of
  movie 5, and for page 2 of all three reviews, with the default page size, and both lists
  answer 404 with \<^verbatim>\<open>Invalid page.\<close>
\<close>

theorem page_beyond_last_is_404:
  "dispatch ReviewListCreateView_permission_classes (ReviewListCreateView_get 5)
     (sample_request sample_ann [''page'' \<mapsto> ''2''] (Map.empty :: string \<rightharpoonup> jvalue)) sample_db
   = (Inr \<lparr>resp_data = Detail ''Invalid page.'', status_code = 404\<rparr>, sample_db)
   \<and> dispatch ReviewViewSet_permission_classes ReviewViewSet_list
     (sample_request sample_ann [''page'' \<mapsto> ''2''] (Map.empty :: string \<rightharpoonup> jvalue)) sample_db
   = (Inr \<lparr>resp_data = Detail ''Invalid page.'', status_code = 404\<rparr>, sample_db)"
  by code_simp

text \<open>
  C3, amended. For an authenticated request to either review list: without a
  \<^verbatim>\<open>page_size\<close> parameter the page size is 10; the page size is never more than 100, and
  no page of a response holds more than 100 reviews; and a page number \<open>n > 1\<close> whose
  first item would lie past the end of the selected reviews is answered with 404,
  \<^verbatim>\<open>Invalid page.\<close>, and not with an empty page.
\<close>

theorem pagination_contract:
  assumes "user request = Some u"
  shows "(query_params request ''page_size'' = None \<longrightarrow> get_page_size request = 10)
       \<and> get_page_size request \<le> 100
       \<and> (\<forall>resp db' env.
             dispatch ReviewViewSet_permission_classes ReviewViewSet_list request db
               = (Inr resp, db') \<and> resp_data resp = Page env
             \<longrightarrow> length (results env) \<le> 100)
       \<and> (\<forall>resp db' env.
             dispatch ReviewListCreateView_permission_classes (ReviewListCreateView_get movie_id)
               request db = (Inr resp, db') \<and> resp_data resp = Page env
             \<longrightarrow> length (results env) \<le> 100)
       \<and> (\<forall>qs s n.
             ReviewViewSet_get_queryset request db = QuerySet qs
             \<and> query_params request ''page'' = Some s \<and> py_int s = Some n
             \<and> 1 < n \<and> int (length qs) \<le> (n - 1) * int (get_page_size request)
             \<longrightarrow> dispatch ReviewViewSet_permission_classes ReviewViewSet_list request db
                   = (Inr \<lparr>resp_data = Detail ''Invalid page.'', status_code = 404\<rparr>, db))
       \<and> (\<forall>qs s n.
             ReviewListCreateView_get_reviews request movie_id db = Inr qs
             \<and> query_params request ''page'' = Some s \<and> py_int s = Some n
             \<and> 1 < n \<and> int (length qs) \<le> (n - 1) * int (get_page_size request)
             \<longrightarrow> dispatch ReviewListCreateView_permission_classes
                     (ReviewListCreateView_get movie_id) request db
                   = (Inr \<lparr>resp_data = Detail ''Invalid page.'', status_code = 404\<rparr>, db))"
proof -
  note b = get_page_size_bounds [of request]
  have a: "query_params request ''page_size'' = None \<longrightarrow> get_page_size request = 10"
    using get_page_size_default by blast
  have c: "\<forall>resp db' env.
             dispatch ReviewViewSet_permission_classes ReviewViewSet_list request db
               = (Inr resp, db') \<and> resp_data resp = Page env
             \<longrightarrow> length (results env) \<le> 100"
  proof (intro allI impI, elim conjE)
    fix resp db' env
    assume "dispatch ReviewViewSet_permission_classes ReviewViewSet_list request db
              = (Inr resp, db')" and p: "resp_data resp = Page env"
    then have "ReviewViewSet_list request db = (Inr resp, db')"
      using dispatch_page [OF assms _ p] by (simp add: ReviewViewSet_permission_classes_def)
    from list_page_length [OF this p] b show "length (results env) \<le> 100" by simp
  qed
  have d: "\<forall>resp db' env.
             dispatch ReviewListCreateView_permission_classes (ReviewListCreateView_get movie_id)
               request db = (Inr resp, db') \<and> resp_data resp = Page env
             \<longrightarrow> length (results env) \<le> 100"
  proof (intro allI impI, elim conjE)
    fix resp db' env
    assume "dispatch ReviewListCreateView_permission_classes (ReviewListCreateView_get movie_id)
              request db = (Inr resp, db')" and p: "resp_data resp = Page env"
    then have "ReviewListCreateView_get movie_id request db = (Inr resp, db')"
      using dispatch_page [OF assms _ p]
      by (simp add: ReviewListCreateView_permission_classes_def)
    from get_page_length [OF this p] b show "length (results env) \<le> 100" by simp
  qed
  have e: "\<forall>qs s n.
             ReviewViewSet_get_queryset request db = QuerySet qs
             \<and> query_params request ''page'' = Some s \<and> py_int s = Some n
             \<and> 1 < n \<and> int (length qs) \<le> (n - 1) * int (get_page_size request)
             \<longrightarrow> dispatch ReviewViewSet_permission_classes ReviewViewSet_list request db
                   = (Inr \<lparr>resp_data = Detail ''Invalid page.'', status_code = 404\<rparr>, db)"
  proof (intro allI impI, elim conjE)
    fix qs s n
    assume "ReviewViewSet_get_queryset request db = QuerySet qs"
      "query_params request ''page'' = Some s" "py_int s = Some n"
      "1 < n" "int (length qs) \<le> (n - 1) * int (get_page_size request)"
    then have "ReviewViewSet_list request db = (Inl (NotFound ''Invalid page.''), db)"
      by (rule list_beyond)
    then show "dispatch ReviewViewSet_permission_classes ReviewViewSet_list request db
                 = (Inr \<lparr>resp_data = Detail ''Invalid page.'', status_code = 404\<rparr>, db)"
      using assms
      by (simp add: ReviewViewSet_permission_classes_def dispatch_authenticated)
  qed
  have f: "\<forall>qs s n.
             ReviewListCreateView_get_reviews request movie_id db = Inr qs
             \<and> query_params request ''page'' = Some s \<and> py_int s = Some n
             \<and> 1 < n \<and> int (length qs) \<le> (n - 1) * int (get_page_size request)
             \<longrightarrow> dispatch ReviewListCreateView_permission_classes
                     (ReviewListCreateView_get movie_id) request db
                   = (Inr \<lparr>resp_data = Detail ''Invalid page.'', status_code = 404\<rparr>, db)"
  proof (intro allI impI, elim conjE)
    fix qs s n
    assume "ReviewListCreateView_get_reviews request movie_id db = Inr qs"
      "query_params request ''page'' = Some s" "py_int s = Some n"
      "1 < n" "int (length qs) \<le> (n - 1) * int (get_page_size request)"
    then have "ReviewListCreateView_get movie_id request db
                 = (Inl (NotFound ''Invalid page.''), db)"
      by (rule get_beyond)
    then show "dispatch ReviewListCreateView_permission_classes
                 (ReviewListCreateView_get movie_id) request db
                 = (Inr \<lparr>resp_data = Detail ''Invalid page.'', status_code = 404\<rparr>, db)"
      using assms
      by (simp add: ReviewListCreateView_permission_classes_def dispatch_authenticated)
  qed
  show ?thesis
    by (intro conjI) (rule a, rule b [THEN conjunct2], rule c, rule d, rule e, rule f)
qed

text \<open>
  The theorem on the sample store, for Ann: asking for page 2 with the default page size of
  10, where the three reviews (two for movie 5) fit on page 1; and asking for a page size
  of 1000, which is cut off at 100.
\<close>

theorem pagination_contract_witness:
  "user (sample_request sample_ann [''page'' \<mapsto> ''2''] (Map.empty :: string \<rightharpoonup> jvalue))
     = Some sample_ann
   \<and> get_page_size
        (sample_request sample_ann [''page'' \<mapsto> ''2''] (Map.empty :: string \<rightharpoonup> jvalue)) = 10
   \<and> dispatch ReviewViewSet_permission_classes ReviewViewSet_list
        (sample_request sample_ann [''page'' \<mapsto> ''2''] (Map.empty :: string \<rightharpoonup> jvalue))
        sample_db
      = (Inr \<lparr>resp_data = Detail ''Invalid page.'', status_code = 404\<rparr>, sample_db)
   \<and> dispatch ReviewListCreateView_permission_classes (ReviewListCreateView_get 5)
        (sample_request sample_ann [''page'' \<mapsto> ''2''] (Map.empty :: string \<rightharpoonup> jvalue))
        sample_db
      = (Inr \<lparr>resp_data = Detail ''Invalid page.'', status_code = 404\<rparr>, sample_db)
   \<and> get_page_size
        (sample_request sample_ann [''page_size'' \<mapsto> ''1000''] (Map.empty :: string \<rightharpoonup> jvalue))
      \<le> 100
   \<and> length [sample_r1, sample_r2, sample_r3] \<le> 100"
proof -
  let ?R = "sample_request sample_ann [''page'' \<mapsto> ''2''] (Map.empty :: string \<rightharpoonup> jvalue)"
  let ?S = "sample_request sample_ann [''page_size'' \<mapsto> ''1000'']
              (Map.empty :: string \<rightharpoonup> jvalue)"
  have u: "user ?R = Some sample_ann" and u': "user ?S = Some sample_ann" by simp_all
  note t = pagination_contract [OF u, of sample_db 5]
  note t' = pagination_contract [OF u', of sample_db 5]
  have np: "query_params ?R ''page_size'' = None" by simp
  have ps: "get_page_size ?R = 10"
    using t [THEN conjunct1] np by (rule mp)
  have q: "ReviewViewSet_get_queryset ?R sample_db = QuerySet [sample_r1, sample_r2, sample_r3]"
    by code_simp
  have m: "ReviewListCreateView_get_reviews ?R 5 sample_db = Inr [sample_r1, sample_r2]"
    by code_simp
  have pg: "query_params ?R ''page'' = Some ''2''" by simp
  have pi: "py_int ''2'' = Some 2" by code_simp
  have n: "(1::int) < 2" by simp
  have l3: "int (length [sample_r1, sample_r2, sample_r3]) \<le> (2 - 1) * int (get_page_size ?R)"
    unfolding ps by simp
  have l2: "int (length [sample_r1, sample_r2]) \<le> (2 - 1) * int (get_page_size ?R)"
    unfolding ps by simp
  have g404: "dispatch ReviewViewSet_permission_classes ReviewViewSet_list ?R sample_db
      = (Inr \<lparr>resp_data = Detail ''Invalid page.'', status_code = 404\<rparr>, sample_db)"
    using t [THEN conjunct2, THEN conjunct2, THEN conjunct2, THEN conjunct2, THEN conjunct1,
        THEN spec, THEN spec, THEN spec, THEN mp, OF conjI [OF q conjI [OF pg conjI [OF pi
          conjI [OF n l3]]]]] .
  have s404: "dispatch ReviewListCreateView_permission_classes (ReviewListCreateView_get 5)
        ?R sample_db
      = (Inr \<lparr>resp_data = Detail ''Invalid page.'', status_code = 404\<rparr>, sample_db)"
    using t [THEN conjunct2, THEN conjunct2, THEN conjunct2, THEN conjunct2, THEN conjunct2,
        THEN spec, THEN spec, THEN spec, THEN mp, OF conjI [OF m conjI [OF pg conjI [OF pi
          conjI [OF n l2]]]]] .
  have big: "get_page_size ?S \<le> 100"
    by (rule t' [THEN conjunct2, THEN conjunct1])
  have ev: "dispatch ReviewViewSet_permission_classes ReviewViewSet_list ?S sample_db
      = (Inr \<lparr>resp_data = Page \<lparr>count = 3, next_page = None, previous_page = None,
                                 results = [sample_r1, sample_r2, sample_r3]\<rparr>,
               status_code = 200\<rparr>, sample_db)"
    by code_simp
  have rs: "resp_data \<lparr>resp_data = Page \<lparr>count = 3, next_page = None, previous_page = None,
                                 results = [sample_r1, sample_r2, sample_r3]\<rparr>,
               status_code = 200\<rparr>
        = Page \<lparr>count = 3, next_page = None, previous_page = None,
                                 results = [sample_r1, sample_r2, sample_r3]\<rparr>" by simp
  have "length (results \<lparr>count = 3, next_page = None, previous_page = None,
                                 results = [sample_r1, sample_r2, sample_r3]\<rparr>) \<le> 100"
    using t' [THEN conjunct2, THEN conjunct2, THEN conjunct1, THEN spec, THEN spec, THEN spec,
        THEN mp, OF conjI [OF ev rs]] .
  then have len: "length [sample_r1, sample_r2, sample_r3] \<le> 100" by simp
  show ?thesis
    by (intro conjI) (rule u, rule ps, rule g404, rule s404, rule big, rule len)
qed

section \<open>The author and the movie of a new review\<close>

lemma pk_field_JInt:
  "pk_field pks (Some (JInt k)) = Inr m \<Longrightarrow> m = Some k"
  by (simp add: pk_field_def split: if_splits)

lemma is_valid_fields:
  assumes "ReviewSerializer_is_valid d db = Inr v"
  shows "pk_field (map movie_pk (movies db)) (d ''movie'') = Inr (f_movie v)"
    and "pk_field (map user_pk (users db)) (d ''user'') = Inr (f_user v)"
  using assms
  by (auto simp: ReviewSerializer_is_valid_def split: sum.splits option.splits)

lemma create_result:
  assumes "(case movie_kw of Some k \<Rightarrow> Some k | None \<Rightarrow> f_movie v) = Some m"
    and "(case user_kw of Some k \<Rightarrow> Some k | None \<Rightarrow> f_user v) = Some k"
  shows "\<exists>r. ReviewSerializer_create v movie_kw user_kw db
               = Inr (r, db\<lparr>reviews := reviews db @ [r]\<rparr>)
             \<and> review_movie r = m \<and> review_user r = k"
  using assms by (simp add: ReviewSerializer_create_def Let_def)

lemma Movie_objects_get_pk:
  "Movie_objects_get movie_id db = Inr movie \<Longrightarrow> movie_pk movie = movie_id"
  by (auto simp: Movie_objects_get_def find_Some_iff split: option.splits)

lemma ReviewListCreateView_post_cases:
  assumes "user request = Some u"
  shows "(\<exists>r. ReviewListCreateView_post movie_id request db
             = (Inr \<lparr>resp_data = ReviewData r, status_code = 201\<rparr>,
                db\<lparr>reviews := reviews db @ [r]\<rparr>)
           \<and> review_user r = user_pk u \<and> review_movie r = movie_id)
       \<or> (\<exists>resp. ReviewListCreateView_post movie_id request db = (Inr resp, db)
           \<and> status_code resp = 400)"
proof -
  define d where "d = (data request)(''movie'' \<mapsto> JInt movie_id, ''user'' \<mapsto> JInt (user_pk u))"
  have run: "ReviewListCreateView_post movie_id request db =
      (case ReviewSerializer_is_valid d db of
           Inr validated_data \<Rightarrow>
             (case ReviewSerializer_create validated_data None None db of
                Inl e \<Rightarrow> (Inl e, db)
              | Inr (r, db') \<Rightarrow> (Inr \<lparr>resp_data = ReviewData r, status_code = 201\<rparr>, db'))
         | Inl errors \<Rightarrow> (Inr \<lparr>resp_data = FieldErrors errors, status_code = 400\<rparr>, db))"
    using assms by (simp add: ReviewListCreateView_post_def d_def Let_def)
  show ?thesis
  proof (cases "ReviewSerializer_is_valid d db")
    case (Inl errors)
    then show ?thesis using run by simp
  next
    case (Inr v)
    have "f_movie v = Some movie_id" "f_user v = Some (user_pk u)"
      using is_valid_fields [OF Inr] pk_field_JInt by (auto simp: d_def)
    then obtain r where
      "ReviewSerializer_create v None None db = Inr (r, db\<lparr>reviews := reviews db @ [r]\<rparr>)"
      "review_movie r = movie_id" "review_user r = user_pk u"
      using create_result [where movie_kw = None and user_kw = None and v = v
          and m = movie_id and k = "user_pk u" and db = db] by auto
    then show ?thesis using run Inr by simp
  qed
qed

lemma CreateMovieReviewView_post_cases:
  assumes "user request = Some u"
  shows "(\<exists>r. CreateMovieReviewView_post movie_id request db
             = (Inr \<lparr>resp_data = ReviewData r, status_code = 201\<rparr>,
                db\<lparr>reviews := reviews db @ [r]\<rparr>)
           \<and> review_user r = user_pk u \<and> review_movie r = movie_id)
       \<or> (\<exists>resp. CreateMovieReviewView_post movie_id request db = (Inr resp, db)
           \<and> (status_code resp = 400 \<or> status_code resp = 404))"
proof (cases "Movie_objects_get movie_id db")
  case (Inl e)
  then show ?thesis by (simp add: CreateMovieReviewView_post_def)
next
  case (Inr movie)
  note mv = Inr
  show ?thesis
  proof (cases "ReviewSerializer_is_valid (data request) db")
    case (Inl errors)
    then show ?thesis using mv by (simp add: CreateMovieReviewView_post_def)
  next
    case (Inr v)
    obtain r where
      "ReviewSerializer_create v (Some (movie_pk movie)) (Some (user_pk u)) db
         = Inr (r, db\<lparr>reviews := reviews db @ [r]\<rparr>)"
      "review_movie r = movie_pk movie" "review_user r = user_pk u"
      using create_result [where movie_kw = "Some (movie_pk movie)"
          and user_kw = "Some (user_pk u)" and v = v and m = "movie_pk movie"
          and k = "user_pk u" and db = db] by auto
    then show ?thesis
      using mv Inr assms Movie_objects_get_pk [OF mv]
      by (simp add: CreateMovieReviewView_post_def)
  qed
qed

text \<open>
  C7. For an authenticated request to create a review under a movie, through either
  \<^verbatim>\<open>ReviewListCreateView.post\<close> or \<^verbatim>\<open>CreateMovieReviewView.post\<close>, and whatever the
  request body holds: either exactly one review is added, its author the acting user and
  its movie the movie of the path, and the response is 201 with that review; or the store
  is unchanged and the response is a 400 (or, from \<^verbatim>\<open>CreateMovieReviewView\<close>, the 404 of a
  missing movie).
\<close>

theorem review_author_is_acting_user:
  assumes "user request = Some u"
  shows "((\<exists>r. dispatch ReviewListCreateView_permission_classes
                 (ReviewListCreateView_post movie_id) request db
               = (Inr \<lparr>resp_data = ReviewData r, status_code = 201\<rparr>,
                  db\<lparr>reviews := reviews db @ [r]\<rparr>)
             \<and> review_user r = user_pk u \<and> review_movie r = movie_id)
          \<or> (\<exists>resp. dispatch ReviewListCreateView_permission_classes
                 (ReviewListCreateView_post movie_id) request db = (Inr resp, db)
             \<and> status_code resp = 400))
       \<and> ((\<exists>r. dispatch CreateMovieReviewView_permission_classes
                 (CreateMovieReviewView_post movie_id) request db
               = (Inr \<lparr>resp_data = ReviewData r, status_code = 201\<rparr>,
                  db\<lparr>reviews := reviews db @ [r]\<rparr>)
             \<and> review_user r = user_pk u \<and> review_movie r = movie_id)
          \<or> (\<exists>resp. dispatch CreateMovieReviewView_permission_classes
                 (CreateMovieReviewView_post movie_id) request db = (Inr resp, db)
             \<and> (status_code resp = 400 \<or> status_code resp = 404)))"
proof -
  have a: "dispatch ReviewListCreateView_permission_classes
             (ReviewListCreateView_post movie_id) request db
           = ReviewListCreateView_post movie_id request db"
    using ReviewListCreateView_post_cases [OF assms, of movie_id db] assms
    by (auto simp: ReviewListCreateView_permission_classes_def dispatch_authenticated)
  have b: "dispatch CreateMovieReviewView_permission_classes
             (CreateMovieReviewView_post movie_id) request db
           = CreateMovieReviewView_post movie_id request db"
    using CreateMovieReviewView_post_cases [OF assms, of movie_id db] assms
    by (auto simp: CreateMovieReviewView_permission_classes_def dispatch_authenticated)
  show ?thesis
    unfolding a b
    using ReviewListCreateView_post_cases [OF assms, of movie_id db]
      CreateMovieReviewView_post_cases [OF assms, of movie_id db]
    by (rule conjI)
qed

text \<open>
  The theorem for Ann posting under movie 5 a body that names Bob as the user and movie 6
  as the movie: through either view the review stored is Ann's, on movie 5.
\<close>

theorem review_author_is_acting_user_witness:
  "user (sample_request sample_ann Map.empty
           [''user'' \<mapsto> JInt 2, ''movie'' \<mapsto> JInt 6, ''rating'' \<mapsto> JInt 4,
            ''body'' \<mapsto> JStr ''great'']) = Some sample_ann
   \<and> (\<exists>r. dispatch ReviewListCreateView_permission_classes (ReviewListCreateView_post 5)
            (sample_request sample_ann Map.empty
               [''user'' \<mapsto> JInt 2, ''movie'' \<mapsto> JInt 6, ''rating'' \<mapsto> JInt 4,
                ''body'' \<mapsto> JStr ''great'']) sample_db
          = (Inr \<lparr>resp_data = ReviewData r, status_code = 201\<rparr>,
             sample_db\<lparr>reviews := reviews sample_db @ [r]\<rparr>)
        \<and> review_user r = 1 \<and> review_movie r = 5)
   \<and> (\<exists>r. dispatch CreateMovieReviewView_permission_classes (CreateMovieReviewView_post 5)
            (sample_request sample_ann Map.empty
               [''user'' \<mapsto> JInt 2, ''movie'' \<mapsto> JInt 6, ''rating'' \<mapsto> JInt 4,
                ''body'' \<mapsto> JStr ''great'']) sample_db
          = (Inr \<lparr>resp_data = ReviewData r, status_code = 201\<rparr>,
             sample_db\<lparr>reviews := reviews sample_db @ [r]\<rparr>)
        \<and> review_user r = 1 \<and> review_movie r = 5)"
proof -
  let ?R = "sample_request sample_ann Map.empty
              [''user'' \<mapsto> JInt 2, ''movie'' \<mapsto> JInt 6, ''rating'' \<mapsto> JInt 4,
               ''body'' \<mapsto> JStr ''great'']"
  let ?r = "\<lparr>review_pk = 4, review_movie = 5, review_user = 1, rating = 4, body = ''great''\<rparr>"
  have u: "user ?R = Some sample_ann" by simp
  note t = review_author_is_acting_user [OF u, of 5 sample_db]
  have e1: "dispatch ReviewListCreateView_permission_classes (ReviewListCreateView_post 5)
              ?R sample_db
            = (Inr \<lparr>resp_data = ReviewData ?r, status_code = 201\<rparr>,
               sample_db\<lparr>reviews := reviews sample_db @ [?r]\<rparr>)"
    by code_simp
  have e2: "dispatch CreateMovieReviewView_permission_classes (CreateMovieReviewView_post 5)
              ?R sample_db
            = (Inr \<lparr>resp_data = ReviewData ?r, status_code = 201\<rparr>,
               sample_db\<lparr>reviews := reviews sample_db @ [?r]\<rparr>)"
    by code_simp
  have a: "\<exists>r. dispatch ReviewListCreateView_permission_classes (ReviewListCreateView_post 5)
            ?R sample_db
          = (Inr \<lparr>resp_data = ReviewData r, status_code = 201\<rparr>,
             sample_db\<lparr>reviews := reviews sample_db @ [r]\<rparr>)
        \<and> review_user r = 1 \<and> review_movie r = 5"
    using t [THEN conjunct1]
  proof (elim disjE exE conjE)
    fix r
    assume "dispatch ReviewListCreateView_permission_classes (ReviewListCreateView_post 5)
              ?R sample_db
            = (Inr \<lparr>resp_data = ReviewData r, status_code = 201\<rparr>,
               sample_db\<lparr>reviews := reviews sample_db @ [r]\<rparr>)"
      "review_user r = user_pk sample_ann" "review_movie r = 5"
    then show ?thesis by (intro exI [of _ r]) simp
  next
    fix resp
    assume "dispatch ReviewListCreateView_permission_classes (ReviewListCreateView_post 5)
              ?R sample_db = (Inr resp, sample_db)" "status_code resp = 400"
    then show ?thesis unfolding e1 by simp
  qed
  have b: "\<exists>r. dispatch CreateMovieReviewView_permission_classes (CreateMovieReviewView_post 5)
            ?R sample_db
          = (Inr \<lparr>resp_data = ReviewData r, status_code = 201\<rparr>,
             sample_db\<lparr>reviews := reviews sample_db @ [r]\<rparr>)
        \<and> review_user r = 1 \<and> review_movie r = 5"
    using t [THEN conjunct2]
  proof (elim disjE exE conjE)
    fix r
    assume "dispatch CreateMovieReviewView_permission_classes (CreateMovieReviewView_post 5)
              ?R sample_db
            = (Inr \<lparr>resp_data = ReviewData r, status_code = 201\<rparr>,
               sample_db\<lparr>reviews := reviews sample_db @ [r]\<rparr>)"
      "review_user r = user_pk sample_ann" "review_movie r = 5"
    then show ?thesis by (intro exI [of _ r]) simp
  next
    fix resp
    assume "dispatch CreateMovieReviewView_permission_classes (CreateMovieReviewView_post 5)
              ?R sample_db = (Inr resp, sample_db)" "status_code resp = 400"
    then show ?thesis unfolding e2 by simp
  next
    fix resp
    assume "dispatch CreateMovieReviewView_permission_classes (CreateMovieReviewView_post 5)
              ?R sample_db = (Inr resp, sample_db)" "status_code resp = 404"
    then show ?thesis unfolding e2 by simp
  qed
  show ?thesis
    by (intro conjI) (rule u, rule a, rule b)
qed

section \<open>Profile update changes the supplied fields only\<close>







section \<open>The three answers of the login view\<close>


lemma dispatch_AllowAny:
  "dispatch [AllowAny] h request db =
     (case h request db of
        (Inl e, db') \<Rightarrow> (handle_exception e, db')
      | (Inr response, db') \<Rightarrow> (Inr response, db'))"
  by (simp add: dispatch_def)

text \<open>
  The three answers below are all the answers of the handler itself. When
  \<^verbatim>\<open>authenticate\<close> raises, the exception goes through the view unhandled.
\<close>

lemma LoginView_post_authenticate_raises:
  "data request ''username'' = Some un \<Longrightarrow> data request ''password'' = Some pw \<Longrightarrow>
   truthy (Some un) \<Longrightarrow> truthy (Some pw) \<Longrightarrow> authenticate auth un pw = Inl e \<Longrightarrow>
   dispatch LoginView_permission_classes (LoginView_post auth) request db
     = (handle_exception e, db)"
  by (simp add: LoginView_permission_classes_def dispatch_AllowAny LoginView_post_def Let_def)

lemma LoginView_post_authenticate_raises_sample:
  "dispatch LoginView_permission_classes
     (LoginView_post (sample_auth\<lparr>authenticate := (\<lambda>un pw. Inl TypeError)\<rparr>))
     (sample_request sample_ann Map.empty
        [''username'' \<mapsto> JStr ''nobody'', ''password'' \<mapsto> JInt 123]) sample_db
   = (Inl TypeError, sample_db)"
  by (simp add: LoginView_permission_classes_def dispatch_AllowAny LoginView_post_def Let_def)



end
